theory Spec2Isabelle
  imports Main "HOL-Library.Log_Nat"
begin

section \<open>Python values used by the trading bot\<close>

subsection \<open>Exceptions\<close>

text \<open>
  Every operation of the bot that can raise is wrapped in \<^verbatim>\<open>try: ... except Exception\<close>.
  The exceptions that can occur are the ones of the Python built-ins used by the code and
  whatever the exchange client raises (\<open>ApiError\<close>, carrying the client's message).
\<close>

datatype error =
    KeyError string
  | TypeError
  | ValueError
  | ZeroDivisionError
  | OverflowError
  | ApiError string

subsection \<open>Floats\<close>

text \<open>
  A Python \<^verbatim>\<open>float\<close> is an IEEE-754 binary64 value. Its finite values are rationals;
  the two zeros are identified (the code only compares and divides, and a division by
  either zero raises). Arithmetic rounds the exact result to the nearest binary64 value,
  ties to even, with gradual underflow and overflow to an infinity.
\<close>

datatype pyfloat = Finite rat | PosInf | NegInf | NaN

definition pow2 :: "int \<Rightarrow> rat" where
  "pow2 k = (if 0 \<le> k then 2 ^ nat k else 1 / 2 ^ nat (- k))"

definition ilog2 :: "rat \<Rightarrow> int" where
  \<comment> \<open>\<open>\<lfloor>log\<^sub>2 |x|\<rfloor>\<close> for \<open>x \<noteq> 0\<close>\<close>
  "ilog2 x =
     (case quotient_of \<bar>x\<bar> of (a, b) \<Rightarrow>
        let d = bitlen a - bitlen b in if pow2 d \<le> \<bar>x\<bar> then d else d - 1)"

definition round_half_even :: "rat \<Rightarrow> int" where
  "round_half_even x =
     (let f = \<lfloor>x\<rfloor>; r = x - of_int f
      in if r < 1 / 2 then f
         else if 1 / 2 < r then f + 1
         else if even f then f else f + 1)"

definition max_float :: rat where
  "max_float = (2 ^ 53 - 1) * 2 ^ 971"

definition binary64 :: "rat \<Rightarrow> pyfloat" where
  "binary64 x =
     (if x = 0 then Finite 0
      else
        let e = max (ilog2 x) (- 1022);
            u = pow2 (e - 52);
            y = of_int (round_half_even (x / u)) * u
        in if max_float < \<bar>y\<bar> then (if 0 < x then PosInf else NegInf) else Finite y)"

text \<open>Comparison: every comparison with a NaN is false.\<close>

fun fle :: "pyfloat \<Rightarrow> pyfloat \<Rightarrow> bool" where
  "fle NaN _ = False"
| "fle _ NaN = False"
| "fle NegInf _ = True"
| "fle _ PosInf = True"
| "fle PosInf _ = False"
| "fle _ NegInf = False"
| "fle (Finite x) (Finite y) = (x \<le> y)"

definition fge :: "pyfloat \<Rightarrow> pyfloat \<Rightarrow> bool" where
  "fge x y = fle y x"

fun flt :: "pyfloat \<Rightarrow> pyfloat \<Rightarrow> bool" where
  "flt NaN _ = False"
| "flt _ NaN = False"
| "flt x y = (\<not> fle y x)"

fun fabs :: "pyfloat \<Rightarrow> pyfloat" where
  "fabs (Finite x) = Finite \<bar>x\<bar>"
| "fabs PosInf = PosInf"
| "fabs NegInf = PosInf"
| "fabs NaN = NaN"

fun fneg :: "pyfloat \<Rightarrow> pyfloat" where
  "fneg (Finite x) = Finite (- x)"
| "fneg PosInf = NegInf"
| "fneg NegInf = PosInf"
| "fneg NaN = NaN"

fun fsign :: "pyfloat \<Rightarrow> rat" where
  "fsign (Finite x) = sgn x"
| "fsign PosInf = 1"
| "fsign NegInf = - 1"
| "fsign NaN = 0"

definition signed_inf :: "rat \<Rightarrow> pyfloat" where
  "signed_inf s = (if 0 < s then PosInf else NegInf)"

definition fmul :: "pyfloat \<Rightarrow> pyfloat \<Rightarrow> pyfloat" where
  "fmul a b =
     (case (a, b) of
        (Finite x, Finite y) \<Rightarrow> binary64 (x * y)
      | (NaN, _) \<Rightarrow> NaN
      | (_, NaN) \<Rightarrow> NaN
      | _ \<Rightarrow> if fsign a * fsign b = 0 then NaN else signed_inf (fsign a * fsign b))"

definition fsub :: "pyfloat \<Rightarrow> pyfloat \<Rightarrow> pyfloat" where
  "fsub a b =
     (case (a, b) of
        (Finite x, Finite y) \<Rightarrow> binary64 (x - y)
      | (NaN, _) \<Rightarrow> NaN
      | (_, NaN) \<Rightarrow> NaN
      | (PosInf, PosInf) \<Rightarrow> NaN
      | (NegInf, NegInf) \<Rightarrow> NaN
      | (PosInf, _) \<Rightarrow> PosInf
      | (NegInf, _) \<Rightarrow> NegInf
      | (_, y) \<Rightarrow> fneg y)"

text \<open>Python's true division of floats raises on a zero divisor, whatever the dividend.\<close>

definition fdiv :: "pyfloat \<Rightarrow> pyfloat \<Rightarrow> error + pyfloat" where
  "fdiv a b =
     (case (a, b) of
        (_, Finite y) \<Rightarrow>
          if y = 0 then Inl ZeroDivisionError
          else (case a of
                  Finite x \<Rightarrow> Inr (binary64 (x / y))
                | NaN \<Rightarrow> Inr NaN
                | _ \<Rightarrow> Inr (signed_inf (fsign a * sgn y)))
      | (NaN, _) \<Rightarrow> Inr NaN
      | (_, NaN) \<Rightarrow> Inr NaN
      | (Finite x, _) \<Rightarrow> Inr (Finite 0)
      | _ \<Rightarrow> Inr NaN)"

text \<open>\<^verbatim>\<open>round(x)\<close> with one argument: the nearest integer, ties to even.\<close>

fun py_round :: "pyfloat \<Rightarrow> error + int" where
  "py_round (Finite x) = Inr (round_half_even x)"
| "py_round NaN = Inl ValueError"
| "py_round _ = Inl OverflowError"

text \<open>The conversion of an \<^verbatim>\<open>int\<close> operand in mixed arithmetic.\<close>

definition int_to_float :: "int \<Rightarrow> error + pyfloat" where
  "int_to_float n =
     (case binary64 (of_int n) of Finite y \<Rightarrow> Inr (Finite y) | _ \<Rightarrow> Inl OverflowError)"

text \<open>
  A decimal float literal, and \<^verbatim>\<open>float\<close> applied to a decimal string, denote the binary64
  value nearest to the decimal number. The literals used below:
  \<^verbatim>\<open>1e-10\<close>, \<^verbatim>\<open>0.01\<close>, \<^verbatim>\<open>0.001\<close>, \<^verbatim>\<open>0.0005\<close>, \<^verbatim>\<open>100.005\<close>, \<^verbatim>\<open>65432.17\<close>, \<^verbatim>\<open>8192.13\<close>
  and \<^verbatim>\<open>8192.130000000001\<close>.
\<close>

definition float_1e_10 :: pyfloat where
  "float_1e_10 = binary64 (1 / 10 ^ 10)"

definition float_0_01 :: pyfloat where
  "float_0_01 = binary64 (1 / 100)"

definition float_0_001 :: pyfloat where
  "float_0_001 = binary64 (1 / 1000)"

definition float_0_0005 :: pyfloat where
  "float_0_0005 = binary64 (5 / 10000)"

definition float_100_005 :: pyfloat where
  "float_100_005 = binary64 (100005 / 1000)"

definition float_65432_17 :: pyfloat where
  "float_65432_17 = binary64 (6543217 / 100)"

definition float_8192_13 :: pyfloat where
  "float_8192_13 = binary64 (819213 / 100)"

definition float_8192_130000000001 :: pyfloat where
  "float_8192_130000000001 = binary64 (8192130000000001 / 10 ^ 12)"

text \<open>
  The distance, in exact arithmetic, from \<open>p\<close> to the nearest integer multiple of \<open>t\<close>.
\<close>

definition tick_distance :: "rat \<Rightarrow> rat \<Rightarrow> rat" where
  "tick_distance p t = \<bar>p - of_int (round_half_even (p / t)) * t\<bar>"

text \<open>
  The alignment test in exact arithmetic on the values of the two floats: the distance
  from the price to the nearest multiple of the tick size is at most the tick size
  divided by \<open>10 ^ 10\<close>.
\<close>

definition exactly_aligned :: "pyfloat \<Rightarrow> pyfloat \<Rightarrow> bool" where
  "exactly_aligned price tick_size =
     (case (price, tick_size) of
        (Finite p, Finite t) \<Rightarrow> tick_distance p t \<le> t / 10 ^ 10
      | _ \<Rightarrow> False)"

subsection \<open>Strings\<close>

text \<open>
  A \<^verbatim>\<open>str\<close> is modelled as a list of 8-bit characters: an ASCII string as it is, any other
  string by its UTF-8 encoding, so that two strings are equal exactly when their models
  are. \<open>upper\<close> is \<^verbatim>\<open>str.upper()\<close> on ASCII strings, which is what the trading symbols and
  order sides of the exchange are made of: it maps the letters \<^verbatim>\<open>a\<close> to \<^verbatim>\<open>z\<close> and leaves every
  other character as it is. On a string with letters outside ASCII, \<^verbatim>\<open>str.upper()\<close> is another
  function; a property stated for every string takes the upper-casing function as a
  parameter.
\<close>

definition upper_char :: "char \<Rightarrow> char" where
  "upper_char c =
     (let n = (of_char c :: nat) in if 97 \<le> n \<and> n \<le> 122 then char_of (n - 32) else c)"

definition upper :: "string \<Rightarrow> string" where
  "upper s = map upper_char s"

section \<open>The exchange client\<close>

subsection \<open>Responses\<close>

text \<open>
  The client returns decoded JSON objects. A key that the code subscripts is an optional
  field: \<open>None\<close> is the absent key, on which \<^verbatim>\<open>d[k]\<close> raises \<open>KeyError\<close>. A value
  that the code only passes to \<^verbatim>\<open>float(...)\<close> is kept as the outcome of that conversion: the
  float, or the exception that \<^verbatim>\<open>float\<close> raises on it.
\<close>

type_synonym float_conv = "error + pyfloat"

record filter_item =
  filterType :: "string option"
  minQty :: "float_conv option"
  tickSize :: "float_conv option"

record symbol_info =
  sym_symbol :: "string option"
  sym_status :: "string option"
  sym_filters :: "filter_item list option"

record exchange_info =
  symbols :: "symbol_info list option"

record account_info =
  totalWalletBalance :: "float_conv option"
  totalUnrealizedPnL :: "float_conv option"
  totalMarginBalance :: "float_conv option"
  availableBalance :: "float_conv option"

record order_response =
  orderId :: "int option"
  other_fields :: "(string \<times> string) list"

record order_info =
  info_status :: "string option"

text \<open>The keyword arguments of \<^verbatim>\<open>futures_create_order\<close>.\<close>

record order_params =
  p_symbol :: string
  p_side :: string
  p_type :: string
  p_timeInForce :: "string option"
  p_quantity :: pyfloat
  p_price :: "pyfloat option"

subsection \<open>Client methods\<close>

text \<open>
  The exchange is an external service with a state of its own, of type \<open>'g\<close>. Each client
  method either raises or returns a response, and moves the exchange to a new state.
\<close>

record 'g client =
  futures_account :: "'g \<Rightarrow> (error + account_info) \<times> 'g"
  futures_exchange_info :: "'g \<Rightarrow> (error + exchange_info) \<times> 'g"
  futures_create_order :: "order_params \<Rightarrow> 'g \<Rightarrow> (error + order_response) \<times> 'g"
  futures_get_order :: "string \<Rightarrow> int \<Rightarrow> 'g \<Rightarrow> (error + order_info) \<times> 'g"
  API_URL :: string

datatype api_call =
    Futures_account
  | Futures_exchange_info
  | Futures_create_order order_params
  | Futures_get_order string int

section \<open>Logging\<close>

text \<open>
  One constructor for each message the code formats, with the values it interpolates.
\<close>

datatype level = INFO | WARNING | ERROR

record balance_info =
  total_wallet_balance :: pyfloat
  total_unrealized_pnl :: pyfloat
  total_margin_balance :: pyfloat
  available_balance :: pyfloat

datatype message =
    Bot_initialized bool
  | Connection_successful
  | Account_balance "float_conv option"
  | Connection_test_failed error
  | Failed_to_initialize error
  | Symbol_is_valid string
  | Symbol_not_valid string
  | Error_validating_symbol string error
  | Quantity_is_valid pyfloat string
  | Quantity_below_minimum pyfloat pyfloat string
  | No_quantity_info string
  | Error_validating_quantity string error
  | Error_getting_symbol_info string error
  | Balance_retrieved balance_info
  | Error_getting_balance error
  | Invalid_symbol string
  | Invalid_side string
  | Invalid_quantity pyfloat
  | Invalid_price pyfloat
  | Price_off_tick pyfloat pyfloat string pyfloat
  | Error_validating_price error
  | Placing_market_order string pyfloat string
  | Market_order_placed order_response
  | Failed_market_order error
  | Placing_limit_order string pyfloat string pyfloat
  | Limit_order_placed order_response
  | Failed_limit_order error
  | Failed_order_status error

section \<open>The state the bot acts on\<close>

text \<open>
  The exchange, the log written so far, and the client methods called so far.
\<close>

record 'g world =
  exchange :: 'g
  log :: "(level \<times> message) list"
  calls :: "api_call list"

definition logger_info :: "message \<Rightarrow> 'g world \<Rightarrow> 'g world" where
  "logger_info m w = w\<lparr>log := log w @ [(INFO, m)]\<rparr>"

definition logger_warning :: "message \<Rightarrow> 'g world \<Rightarrow> 'g world" where
  "logger_warning m w = w\<lparr>log := log w @ [(WARNING, m)]\<rparr>"

definition logger_error :: "message \<Rightarrow> 'g world \<Rightarrow> 'g world" where
  "logger_error m w = w\<lparr>log := log w @ [(ERROR, m)]\<rparr>"

text \<open>A call of a client method: the exchange moves on and the call is recorded.\<close>

definition invoke :: "api_call \<Rightarrow> ('g \<Rightarrow> 'r \<times> 'g) \<Rightarrow> 'g world \<Rightarrow> 'r \<times> 'g world" where
  "invoke c m w =
     (case m (exchange w) of (r, g) \<Rightarrow> (r, w\<lparr>exchange := g, calls := calls w @ [c]\<rparr>))"

section \<open>\<^verbatim>\<open>basic_bot.py\<close>: class \<^verbatim>\<open>BasicBot\<close>\<close>

record 'g bot =
  api_key :: string
  api_secret :: string
  testnet :: bool
  client :: "'g client"



text \<open>
  The list comprehension of \<^verbatim>\<open>validate_symbol\<close>: for each entry the condition
  \<^verbatim>\<open>s['status'] == 'TRADING'\<close> is evaluated first, and \<^verbatim>\<open>s['symbol']\<close> only when it holds.
\<close>

fun trading_symbols :: "symbol_info list \<Rightarrow> error + string list" where
  "trading_symbols [] = Inr []"
| "trading_symbols (s # ss) =
     (case sym_status s of
        None \<Rightarrow> Inl (KeyError ''status'')
      | Some st \<Rightarrow>
          if st = ''TRADING'' then
            (case sym_symbol s of
               None \<Rightarrow> Inl (KeyError ''symbol'')
             | Some name \<Rightarrow>
                 (case trading_symbols ss of Inl e \<Rightarrow> Inl e | Inr names \<Rightarrow> Inr (name # names)))
          else trading_symbols ss)"

text \<open>
  \<^verbatim>\<open>validate_symbol\<close>, over the upper-casing function \<open>up\<close> that stands for \<^verbatim>\<open>str.upper\<close>.
\<close>

definition validate_symbol_with ::
  "(string \<Rightarrow> string) \<Rightarrow> 'g bot \<Rightarrow> string \<Rightarrow> 'g world \<Rightarrow> bool \<times> 'g world" where
  "validate_symbol_with up self symbol w =
     (case invoke Futures_exchange_info (futures_exchange_info (client self)) w of
        (Inl e, w1) \<Rightarrow> (False, logger_error (Error_validating_symbol symbol e) w1)
      | (Inr exchange_info, w1) \<Rightarrow>
          (case symbols exchange_info of
             None \<Rightarrow>
               (False, logger_error (Error_validating_symbol symbol (KeyError ''symbols'')) w1)
           | Some ss \<Rightarrow>
               (case trading_symbols ss of
                  Inl e \<Rightarrow> (False, logger_error (Error_validating_symbol symbol e) w1)
                | Inr names \<Rightarrow>
                    let is_valid = (up symbol \<in> set names)
                    in if is_valid then (True, logger_info (Symbol_is_valid symbol) w1)
                       else (False, logger_warning (Symbol_not_valid symbol) w1))))"

definition validate_symbol :: "'g bot \<Rightarrow> string \<Rightarrow> 'g world \<Rightarrow> bool \<times> 'g world" where
  "validate_symbol self symbol w = validate_symbol_with upper self symbol w"

text \<open>
  The two loops of \<^verbatim>\<open>validate_quantity\<close>. A loop yields \<open>Inr (Some b)\<close> when its body
  returns \<open>b\<close>, \<open>Inr None\<close> when it runs to its end, and \<open>Inl e\<close> when the body raises.
\<close>

fun quantity_filter_loop ::
  "string \<Rightarrow> pyfloat \<Rightarrow> filter_item list \<Rightarrow> 'g world \<Rightarrow> (error + bool option) \<times> 'g world" where
  "quantity_filter_loop symbol quantity [] w = (Inr None, w)"
| "quantity_filter_loop symbol quantity (filter_item # rest) w =
     (case filterType filter_item of
        None \<Rightarrow> (Inl (KeyError ''filterType''), w)
      | Some ty \<Rightarrow>
          if ty = ''LOT_SIZE'' then
            (case minQty filter_item of
               None \<Rightarrow> (Inl (KeyError ''minQty''), w)
             | Some (Inl e) \<Rightarrow> (Inl e, w)
             | Some (Inr min_qty) \<Rightarrow>
                 if fge quantity min_qty
                 then (Inr (Some True), logger_info (Quantity_is_valid quantity symbol) w)
                 else (Inr (Some False),
                       logger_warning (Quantity_below_minimum quantity min_qty symbol) w))
          else quantity_filter_loop symbol quantity rest w)"

fun quantity_symbol_loop ::
  "string \<Rightarrow> pyfloat \<Rightarrow> symbol_info list \<Rightarrow> 'g world \<Rightarrow> (error + bool option) \<times> 'g world" where
  "quantity_symbol_loop symbol quantity [] w = (Inr None, w)"
| "quantity_symbol_loop symbol quantity (s # rest) w =
     (case sym_symbol s of
        None \<Rightarrow> (Inl (KeyError ''symbol''), w)
      | Some name \<Rightarrow>
          if name = upper symbol then
            (case sym_filters s of
               None \<Rightarrow> (Inl (KeyError ''filters''), w)
             | Some fs \<Rightarrow>
                 (case quantity_filter_loop symbol quantity fs w of
                    (Inr None, w1) \<Rightarrow> quantity_symbol_loop symbol quantity rest w1
                  | r \<Rightarrow> r))
          else quantity_symbol_loop symbol quantity rest w)"

definition validate_quantity ::
  "'g bot \<Rightarrow> string \<Rightarrow> pyfloat \<Rightarrow> 'g world \<Rightarrow> bool \<times> 'g world" where
  "validate_quantity self symbol quantity w =
     (case invoke Futures_exchange_info (futures_exchange_info (client self)) w of
        (Inl e, w1) \<Rightarrow> (False, logger_error (Error_validating_quantity symbol e) w1)
      | (Inr exchange_info, w1) \<Rightarrow>
          (case symbols exchange_info of
             None \<Rightarrow>
               (False, logger_error (Error_validating_quantity symbol (KeyError ''symbols'')) w1)
           | Some ss \<Rightarrow>
               (case quantity_symbol_loop symbol quantity ss w1 of
                  (Inl e, w2) \<Rightarrow> (False, logger_error (Error_validating_quantity symbol e) w2)
                | (Inr (Some b), w2) \<Rightarrow> (b, w2)
                | (Inr None, w2) \<Rightarrow> (False, logger_warning (No_quantity_info symbol) w2))))"

fun find_symbol :: "string \<Rightarrow> symbol_info list \<Rightarrow> error + symbol_info option" where
  "find_symbol symbol [] = Inr None"
| "find_symbol symbol (s # rest) =
     (case sym_symbol s of
        None \<Rightarrow> Inl (KeyError ''symbol'')
      | Some name \<Rightarrow> if name = upper symbol then Inr (Some s) else find_symbol symbol rest)"

definition get_symbol_info ::
  "'g bot \<Rightarrow> string \<Rightarrow> 'g world \<Rightarrow> symbol_info option \<times> 'g world" where
  "get_symbol_info self symbol w =
     (case invoke Futures_exchange_info (futures_exchange_info (client self)) w of
        (Inl e, w1) \<Rightarrow> (None, logger_error (Error_getting_symbol_info symbol e) w1)
      | (Inr exchange_info, w1) \<Rightarrow>
          (case symbols exchange_info of
             None \<Rightarrow>
               (None, logger_error (Error_getting_symbol_info symbol (KeyError ''symbols'')) w1)
           | Some ss \<Rightarrow>
               (case find_symbol symbol ss of
                  Inl e \<Rightarrow> (None, logger_error (Error_getting_symbol_info symbol e) w1)
                | Inr r \<Rightarrow> (r, w1))))"



section \<open>Order results\<close>

text \<open>
  The dictionary returned by a successful order placement. A market order has no
  \<^verbatim>\<open>'price'\<close> key.
\<close>

record order_result =
  r_order_id :: int
  r_symbol :: string
  r_side :: string
  r_quantity :: pyfloat
  r_price :: "pyfloat option"
  r_type :: string
  r_status :: "string option"
  r_raw_response :: order_response

section \<open>\<^verbatim>\<open>market_orders.py\<close>: class \<^verbatim>\<open>MarketOrderManager\<close>\<close>

definition market_get_order_status ::
  "'g bot \<Rightarrow> string \<Rightarrow> int \<Rightarrow> 'g world \<Rightarrow> string option \<times> 'g world" where
  "market_get_order_status self symbol order_id w =
     (case invoke (Futures_get_order (upper symbol) order_id)
             (futures_get_order (client self) (upper symbol) order_id) w of
        (Inl e, w1) \<Rightarrow> (None, logger_error (Failed_order_status e) w1)
      | (Inr order_info, w1) \<Rightarrow> (info_status order_info, w1))"

definition validate_market_order_inputs ::
  "'g bot \<Rightarrow> string \<Rightarrow> string \<Rightarrow> pyfloat \<Rightarrow> 'g world \<Rightarrow> bool \<times> 'g world" where
  "validate_market_order_inputs self symbol side quantity w =
     (case validate_symbol self symbol w of
        (False, w1) \<Rightarrow> (False, logger_error (Invalid_symbol symbol) w1)
      | (True, w1) \<Rightarrow>
          if upper side \<notin> set [''BUY'', ''SELL'']
          then (False, logger_error (Invalid_side side) w1)
          else if fle quantity (Finite 0)
          then (False, logger_error (Invalid_quantity quantity) w1)
          else (case validate_quantity self symbol quantity w1 of
                  (False, w2) \<Rightarrow> (False, w2)
                | (True, w2) \<Rightarrow> (True, w2)))"

text \<open>The keyword arguments of the submission of a market order.\<close>

definition market_order_params :: "string \<Rightarrow> string \<Rightarrow> pyfloat \<Rightarrow> order_params" where
  "market_order_params symbol side quantity =
     \<lparr>p_symbol = upper symbol, p_side = upper side, p_type = ''MARKET'',
      p_timeInForce = None, p_quantity = quantity, p_price = None\<rparr>"

definition place_market_order ::
  "'g bot \<Rightarrow> string \<Rightarrow> string \<Rightarrow> pyfloat \<Rightarrow> 'g world \<Rightarrow> order_result option \<times> 'g world" where
  "place_market_order self symbol side quantity w =
     (case validate_market_order_inputs self symbol side quantity w of
        (False, w1) \<Rightarrow> (None, w1)
      | (True, w1) \<Rightarrow>
          let w2 = logger_info (Placing_market_order side quantity symbol) w1;
              params = market_order_params symbol side quantity
          in case invoke (Futures_create_order params)
                    (futures_create_order (client self) params) w2 of
               (Inl e, w3) \<Rightarrow> (None, logger_error (Failed_market_order e) w3)
             | (Inr order, w3) \<Rightarrow>
                 let w4 = logger_info (Market_order_placed order) w3
                 in case orderId order of
                      None \<Rightarrow> (None, logger_error (Failed_market_order (KeyError ''orderId'')) w4)
                    | Some order_id \<Rightarrow>
                        (case market_get_order_status self symbol order_id w4 of
                           (order_status, w5) \<Rightarrow>
                             (Some \<lparr>r_order_id = order_id, r_symbol = symbol, r_side = side,
                                    r_quantity = quantity, r_price = None, r_type = ''MARKET'',
                                    r_status = order_status, r_raw_response = order\<rparr>, w5)))"

section \<open>\<^verbatim>\<open>limit_orders.py\<close>: class \<^verbatim>\<open>LimitOrderManager\<close>\<close>

definition limit_get_order_status ::
  "'g bot \<Rightarrow> string \<Rightarrow> int \<Rightarrow> 'g world \<Rightarrow> string option \<times> 'g world" where
  "limit_get_order_status self symbol order_id w =
     (case invoke (Futures_get_order (upper symbol) order_id)
             (futures_get_order (client self) (upper symbol) order_id) w of
        (Inl e, w1) \<Rightarrow> (None, logger_error (Failed_order_status e) w1)
      | (Inr order_info, w1) \<Rightarrow> (info_status order_info, w1))"

text \<open>\<^verbatim>\<open>round(price / tick_size) * tick_size\<close>, each step in float arithmetic.\<close>

definition rounded_to_tick :: "pyfloat \<Rightarrow> pyfloat \<Rightarrow> error + pyfloat" where
  "rounded_to_tick price tick_size =
     (case fdiv price tick_size of
        Inl e \<Rightarrow> Inl e
      | Inr q \<Rightarrow>
          (case py_round q of
             Inl e \<Rightarrow> Inl e
           | Inr n \<Rightarrow>
               (case int_to_float n of
                  Inl e \<Rightarrow> Inl e
                | Inr nf \<Rightarrow> Inr (fmul nf tick_size))))"

fun price_filter_loop ::
  "string \<Rightarrow> pyfloat \<Rightarrow> filter_item list \<Rightarrow> 'g world \<Rightarrow> (error + bool option) \<times> 'g world" where
  "price_filter_loop symbol price [] w = (Inr None, w)"
| "price_filter_loop symbol price (filter_item # rest) w =
     (case filterType filter_item of
        None \<Rightarrow> (Inl (KeyError ''filterType''), w)
      | Some ty \<Rightarrow>
          if ty = ''PRICE_FILTER'' then
            (case tickSize filter_item of
               None \<Rightarrow> (Inl (KeyError ''tickSize''), w)
             | Some (Inl e) \<Rightarrow> (Inl e, w)
             | Some (Inr tick_size) \<Rightarrow>
                 (case rounded_to_tick price tick_size of
                    Inl e \<Rightarrow> (Inl e, w)
                  | Inr rounded_price \<Rightarrow>
                      let tolerance = fmul tick_size float_1e_10
                      in if fle (fabs (fsub price rounded_price)) tolerance
                         then (Inr (Some True), w)
                         else (Inr (Some False),
                               logger_error
                                 (Price_off_tick price tick_size symbol rounded_price) w)))
          else price_filter_loop symbol price rest w)"

definition validate_price_precision ::
  "'g bot \<Rightarrow> string \<Rightarrow> pyfloat \<Rightarrow> 'g world \<Rightarrow> bool \<times> 'g world" where
  "validate_price_precision self symbol price w =
     (case get_symbol_info self symbol w of
        (None, w1) \<Rightarrow> (False, w1)
      | (Some symbol_info, w1) \<Rightarrow>
          (case sym_filters symbol_info of
             None \<Rightarrow> (False, logger_error (Error_validating_price (KeyError ''filters'')) w1)
           | Some fs \<Rightarrow>
               (case price_filter_loop symbol price fs w1 of
                  (Inl e, w2) \<Rightarrow> (False, logger_error (Error_validating_price e) w2)
                | (Inr (Some b), w2) \<Rightarrow> (b, w2)
                | (Inr None, w2) \<Rightarrow> (True, w2))))"

definition validate_limit_order_inputs ::
  "'g bot \<Rightarrow> string \<Rightarrow> string \<Rightarrow> pyfloat \<Rightarrow> pyfloat \<Rightarrow> 'g world \<Rightarrow> bool \<times> 'g world" where
  "validate_limit_order_inputs self symbol side quantity price w =
     (case validate_symbol self symbol w of
        (False, w1) \<Rightarrow> (False, logger_error (Invalid_symbol symbol) w1)
      | (True, w1) \<Rightarrow>
          if upper side \<notin> set [''BUY'', ''SELL'']
          then (False, logger_error (Invalid_side side) w1)
          else if fle quantity (Finite 0)
          then (False, logger_error (Invalid_quantity quantity) w1)
          else (case validate_quantity self symbol quantity w1 of
                  (False, w2) \<Rightarrow> (False, w2)
                | (True, w2) \<Rightarrow>
                    if fle price (Finite 0)
                    then (False, logger_error (Invalid_price price) w2)
                    else (case validate_price_precision self symbol price w2 of
                            (False, w3) \<Rightarrow> (False, w3)
                          | (True, w3) \<Rightarrow> (True, w3))))"

text \<open>The keyword arguments of the submission of a limit order.\<close>

definition limit_order_params ::
  "string \<Rightarrow> string \<Rightarrow> pyfloat \<Rightarrow> pyfloat \<Rightarrow> order_params" where
  "limit_order_params symbol side quantity price =
     \<lparr>p_symbol = upper symbol, p_side = upper side, p_type = ''LIMIT'',
      p_timeInForce = Some ''GTC'', p_quantity = quantity, p_price = Some price\<rparr>"

definition place_limit_order ::
  "'g bot \<Rightarrow> string \<Rightarrow> string \<Rightarrow> pyfloat \<Rightarrow> pyfloat \<Rightarrow> 'g world \<Rightarrow>
   order_result option \<times> 'g world" where
  "place_limit_order self symbol side quantity price w =
     (case validate_limit_order_inputs self symbol side quantity price w of
        (False, w1) \<Rightarrow> (None, w1)
      | (True, w1) \<Rightarrow>
          let w2 = logger_info (Placing_limit_order side quantity symbol price) w1;
              params = limit_order_params symbol side quantity price
          in case invoke (Futures_create_order params)
                    (futures_create_order (client self) params) w2 of
               (Inl e, w3) \<Rightarrow> (None, logger_error (Failed_limit_order e) w3)
             | (Inr order, w3) \<Rightarrow>
                 let w4 = logger_info (Limit_order_placed order) w3
                 in case orderId order of
                      None \<Rightarrow> (None, logger_error (Failed_limit_order (KeyError ''orderId'')) w4)
                    | Some order_id \<Rightarrow>
                        (case limit_get_order_status self symbol order_id w4 of
                           (order_status, w5) \<Rightarrow>
                             (Some \<lparr>r_order_id = order_id, r_symbol = symbol, r_side = side,
                                    r_quantity = quantity, r_price = Some price,
                                    r_type = ''LIMIT'', r_status = order_status,
                                    r_raw_response = order\<rparr>, w5)))"

section \<open>Observing the calls\<close>

text \<open>The order submissions among a list of client calls, in the order they were made.\<close>

fun submissions :: "api_call list \<Rightarrow> order_params list" where
  "submissions [] = []"
| "submissions (Futures_create_order ps # cs) = ps # submissions cs"
| "submissions (_ # cs) = submissions cs"

text \<open>
  From \<open>w\<close> to \<open>w'\<close> the client has been called, but no order has been submitted.
\<close>

definition reads_only :: "'g world \<Rightarrow> 'g world \<Rightarrow> bool" where
  "reads_only w w' \<longleftrightarrow> (\<exists>cs. calls w' = calls w @ cs \<and> submissions cs = [])"

section \<open>A test double for the exchange\<close>

text \<open>
  The mocked gateway of the specification's test scenarios: one symbol \<^verbatim>\<open>BTCUSDT\<close> with
  status \<^verbatim>\<open>TRADING\<close>, minimum quantity \<^verbatim>\<open>0.001\<close> and tick size \<^verbatim>\<open>0.01\<close>. Its state is the
  identifier of the next order; every submission is accepted.
\<close>

definition btc_price_filter :: filter_item where
  "btc_price_filter =
     \<lparr>filterType = Some ''PRICE_FILTER'', minQty = None,
      tickSize = Some (Inr float_0_01)\<rparr>"

definition btc_lot_filter :: filter_item where
  "btc_lot_filter =
     \<lparr>filterType = Some ''LOT_SIZE'', minQty = Some (Inr float_0_001),
      tickSize = None\<rparr>"

definition btc_symbol :: symbol_info where
  "btc_symbol =
     \<lparr>sym_symbol = Some ''BTCUSDT'', sym_status = Some ''TRADING'',
      sym_filters = Some [btc_price_filter, btc_lot_filter]\<rparr>"

definition btc_info :: exchange_info where
  "btc_info = \<lparr>symbols = Some [btc_symbol]\<rparr>"

definition mock_account :: account_info where
  "mock_account =
     \<lparr>totalWalletBalance = Some (Inr (Finite 1000)), totalUnrealizedPnL = None,
      totalMarginBalance = Some (Inr (Finite 1000)), availableBalance = Some (Inr (Finite 900))\<rparr>"

definition mock_client :: "nat client" where
  "mock_client =
     \<lparr>futures_account = (\<lambda>g. (Inr mock_account, g)),
      futures_exchange_info = (\<lambda>g. (Inr btc_info, g)),
      futures_create_order = (\<lambda>ps g. (Inr \<lparr>orderId = Some (int g), other_fields = []\<rparr>, Suc g)),
      futures_get_order = (\<lambda>sym oid g. (Inr \<lparr>info_status = Some ''NEW''\<rparr>, g)),
      API_URL = ''https://testnet.binancefuture.com''\<rparr>"




text \<open>An exchange that accepts orders but fails every status query.\<close>

definition no_status_client :: "nat client" where
  "no_status_client =
     mock_client\<lparr>futures_get_order := (\<lambda>sym oid g. (Inl (ApiError ''timeout''), g))\<rparr>"

text \<open>An exchange that rejects every submission.\<close>

definition reject_client :: "nat client" where
  "reject_client =
     mock_client\<lparr>futures_create_order := (\<lambda>ps g. (Inl (ApiError ''rejected''), g))\<rparr>"

text \<open>
  An exchange whose only symbol \<^verbatim>\<open>ETHUSDT\<close> is published with neither a price filter nor
  a lot-size filter.
\<close>

definition eth_filter :: filter_item where
  "eth_filter =
     \<lparr>filterType = Some ''MARKET_LOT_SIZE'', minQty = Some (Inr (Finite 1)), tickSize = None\<rparr>"

definition eth_symbol :: symbol_info where
  "eth_symbol =
     \<lparr>sym_symbol = Some ''ETHUSDT'', sym_status = Some ''TRADING'',
      sym_filters = Some [eth_filter]\<rparr>"

definition eth_info :: exchange_info where
  "eth_info = \<lparr>symbols = Some [eth_symbol]\<rparr>"

definition bare_client :: "nat client" where
  "bare_client = mock_client\<lparr>futures_exchange_info := (\<lambda>g. (Inr eth_info, g))\<rparr>"

definition mock_bot :: "nat client \<Rightarrow> nat bot" where
  "mock_bot c = \<lparr>api_key = ''key'', api_secret = ''secret'', testnet = True, client = c\<rparr>"

definition w0 :: "nat world" where
  "w0 = \<lparr>exchange = 0, log = [], calls = []\<rparr>"


section \<open>Basic facts\<close>

lemma upper_char_idem: "upper_char (upper_char c) = upper_char c"
  unfolding upper_char_def Let_def by auto

lemma upper_idem: "upper (upper s) = upper s"
  by (simp add: upper_def upper_char_idem)

lemma trading_symbols_set:
  "trading_symbols ss = Inr names \<Longrightarrow>
   set names = {name. \<exists>s \<in> set ss. sym_symbol s = Some name \<and> sym_status s = Some ''TRADING''}"
  by (induction ss arbitrary: names) (auto split: option.splits if_splits sum.splits)

lemma invoke_eq:
  "invoke c m w = (fst (m (exchange w)), w\<lparr>exchange := snd (m (exchange w)), calls := calls w @ [c]\<rparr>)"
  by (simp add: invoke_def split: prod.splits)

lemma logger_simps [simp]:
  "exchange (logger_info m w) = exchange w" "calls (logger_info m w) = calls w"
  "log (logger_info m w) = log w @ [(INFO, m)]"
  "exchange (logger_warning m w) = exchange w" "calls (logger_warning m w) = calls w"
  "log (logger_warning m w) = log w @ [(WARNING, m)]"
  "exchange (logger_error m w) = exchange w" "calls (logger_error m w) = calls w"
  "log (logger_error m w) = log w @ [(ERROR, m)]"
  by (simp_all add: logger_info_def logger_warning_def logger_error_def)

subsection \<open>Validation only reads the exchange metadata\<close>

lemma submissions_append: "submissions (xs @ ys) = submissions xs @ submissions ys"
  by (induction xs rule: submissions.induct) simp_all

lemma reads_only_refl: "reads_only w w"
  by (simp add: reads_only_def)

lemma reads_only_trans: "reads_only w w1 \<Longrightarrow> reads_only w1 w2 \<Longrightarrow> reads_only w w2"
  by (auto simp: reads_only_def submissions_append)

lemma reads_only_log [simp]:
  "reads_only w (logger_info m w')  = reads_only w w'"
  "reads_only w (logger_warning m w')  = reads_only w w'"
  "reads_only w (logger_error m w')  = reads_only w w'"
  by (simp_all add: reads_only_def)

lemma reads_only_info:
  "reads_only w (w\<lparr>exchange := g, calls := calls w @ [Futures_exchange_info]\<rparr>)"
  by (simp add: reads_only_def)

lemma quantity_filter_loop_calls:
  "calls (snd (quantity_filter_loop symbol quantity fs w)) = calls w"
  by (induction fs) (auto split: option.splits sum.splits)

lemma quantity_symbol_loop_calls:
  "calls (snd (quantity_symbol_loop symbol quantity ss w)) = calls w"
proof (induction ss arbitrary: w)
  case Nil
  show ?case by simp
next
  case (Cons s ss)
  show ?case
  proof (cases "sym_symbol s")
    case None
    then show ?thesis by simp
  next
    case (Some name)
    show ?thesis
    proof (cases "name = upper symbol")
      case False
      with Some Cons.IH show ?thesis by simp
    next
      case True
      show ?thesis
      proof (cases "sym_filters s")
        case None
        with Some True show ?thesis by simp
      next
        case fs: (Some fs)
        obtain r w1 where q: "quantity_filter_loop symbol quantity fs w = (r, w1)"
          by (cases "quantity_filter_loop symbol quantity fs w")
        with quantity_filter_loop_calls [of symbol quantity fs w]
        have c: "calls w1 = calls w" by simp
        from Some True fs q c Cons.IH [of w1] show ?thesis
          by (auto split: sum.splits option.splits)
      qed
    qed
  qed
qed

lemma price_filter_loop_calls:
  "calls (snd (price_filter_loop symbol price fs w)) = calls w"
  by (induction fs) (auto simp: Let_def split: option.splits sum.splits)

lemma validate_symbol_reads: "reads_only w (snd (validate_symbol self symbol w))"
  by (simp add: validate_symbol_def validate_symbol_with_def invoke_eq Let_def reads_only_info
           split: sum.splits option.splits)

lemma validate_quantity_reads: "reads_only w (snd (validate_quantity self symbol quantity w))"
proof -
  let ?w1 = "w\<lparr>exchange := snd (futures_exchange_info (client self) (exchange w)),
               calls := calls w @ [Futures_exchange_info]\<rparr>"
  have "reads_only w w2" if "quantity_symbol_loop symbol quantity ss ?w1 = (r, w2)" for ss r w2
    using quantity_symbol_loop_calls [of symbol quantity ss ?w1] that
    by (simp add: reads_only_def)
  then show ?thesis
    by (auto simp: validate_quantity_def invoke_eq reads_only_info
            split: sum.splits option.splits prod.splits)
qed

lemma get_symbol_info_reads: "reads_only w (snd (get_symbol_info self symbol w))"
  by (simp add: get_symbol_info_def invoke_eq reads_only_info split: sum.splits option.splits)

lemma validate_price_precision_reads:
  "reads_only w (snd (validate_price_precision self symbol price w))"
proof -
  obtain r w1 where g: "get_symbol_info self symbol w = (r, w1)"
    by (cases "get_symbol_info self symbol w")
  with get_symbol_info_reads [of w self symbol] have 1: "reads_only w w1" by simp
  have "reads_only w w2" if "price_filter_loop symbol price fs w1 = (r, w2)" for fs r w2
    using price_filter_loop_calls [of symbol price fs w1] 1 that
    by (simp add: reads_only_def)
  with 1 g show ?thesis
    by (auto simp: validate_price_precision_def split: sum.splits option.splits prod.splits)
qed

lemma validate_market_order_inputs_reads:
  "reads_only w (snd (validate_market_order_inputs self symbol side quantity w))"
proof -
  obtain b w1 where v: "validate_symbol self symbol w = (b, w1)"
    by (cases "validate_symbol self symbol w")
  with validate_symbol_reads [of w self symbol] have 1: "reads_only w w1" by simp
  have 2: "reads_only w (snd (validate_quantity self symbol quantity w1))"
    using reads_only_trans [OF 1 validate_quantity_reads] .
  from v 1 2 show ?thesis
    by (cases b) (auto simp: validate_market_order_inputs_def split: prod.splits bool.splits)
qed

lemma validate_limit_order_inputs_reads:
  "reads_only w (snd (validate_limit_order_inputs self symbol side quantity price w))"
proof -
  obtain b w1 where v: "validate_symbol self symbol w = (b, w1)"
    by (cases "validate_symbol self symbol w")
  with validate_symbol_reads [of w self symbol] have 1: "reads_only w w1" by simp
  obtain b2 w2 where q: "validate_quantity self symbol quantity w1 = (b2, w2)"
    by (cases "validate_quantity self symbol quantity w1")
  with validate_quantity_reads [of w1 self symbol quantity] 1 have 2: "reads_only w w2"
    by (auto intro: reads_only_trans)
  have 3: "reads_only w (snd (validate_price_precision self symbol price w2))"
    using reads_only_trans [OF 2 validate_price_precision_reads] .
  from v q 1 2 3 show ?thesis
    by (cases b; cases b2)
       (auto simp: validate_limit_order_inputs_def split: prod.splits bool.splits)
qed

lemma market_get_order_status_calls:
  "market_get_order_status self symbol order_id w = (st, w') \<Longrightarrow>
   calls w' = calls w @ [Futures_get_order (upper symbol) order_id]"
  by (auto simp: market_get_order_status_def invoke_eq split: sum.splits)

lemma limit_get_order_status_calls:
  "limit_get_order_status self symbol order_id w = (st, w') \<Longrightarrow>
   calls w' = calls w @ [Futures_get_order (upper symbol) order_id]"
  by (auto simp: limit_get_order_status_def invoke_eq split: sum.splits)

lemma place_market_order_Some:
  assumes "place_market_order self symbol side quantity w = (Some r, w')"
  shows "r_symbol r = symbol \<and> r_side r = side \<and> r_quantity r = quantity \<and> r_price r = None \<and>
         (\<exists>cs. calls w' = calls w @ cs \<and>
            submissions cs = [\<lparr>p_symbol = upper symbol, p_side = upper side, p_type = ''MARKET'',
                               p_timeInForce = None, p_quantity = quantity, p_price = None\<rparr>])"
proof -
  let ?ps = "market_order_params symbol side quantity"
  obtain b w1 where v: "validate_market_order_inputs self symbol side quantity w = (b, w1)"
    by (cases "validate_market_order_inputs self symbol side quantity w")
  with assms have b: "b" by (cases b) (auto simp: place_market_order_def)
  from v validate_market_order_inputs_reads [of w self symbol side quantity]
  obtain cs1 where cs1: "calls w1 = calls w @ cs1" "submissions cs1 = []"
    by (auto simp: reads_only_def)
  let ?w2 = "logger_info (Placing_market_order side quantity symbol) w1"
  obtain res w3 where c: "invoke (Futures_create_order ?ps)
        (futures_create_order (client self) ?ps) ?w2 = (res, w3)"
    by (cases "invoke (Futures_create_order ?ps) (futures_create_order (client self) ?ps) ?w2")
  then have w3: "calls w3 = calls w1 @ [Futures_create_order ?ps]"
    by (auto simp: invoke_eq)
  from assms v b c obtain order oid st where
    o: "res = Inr order" "orderId order = Some oid"
    and g: "market_get_order_status self symbol oid (logger_info (Market_order_placed order) w3)
              = (st, w')"
    and r: "r = \<lparr>r_order_id = oid, r_symbol = symbol, r_side = side, r_quantity = quantity,
                 r_price = None, r_type = ''MARKET'', r_status = st, r_raw_response = order\<rparr>"
    by (auto simp: place_market_order_def Let_def split: sum.splits option.splits prod.splits)
  from market_get_order_status_calls [OF g] w3 cs1
  have "calls w' = calls w @ (cs1 @ [Futures_create_order ?ps, Futures_get_order (upper symbol) oid])"
    by simp
  moreover have "submissions (cs1 @ [Futures_create_order ?ps, Futures_get_order (upper symbol) oid])
      = [?ps]"
    by (simp add: submissions_append cs1)
  ultimately have "\<exists>cs. calls w' = calls w @ cs \<and> submissions cs = [?ps]"
    by blast
  with r show ?thesis by (simp add: market_order_params_def limit_order_params_def)
qed

lemma place_limit_order_Some:
  assumes "place_limit_order self symbol side quantity price w = (Some r, w')"
  shows "r_symbol r = symbol \<and> r_side r = side \<and> r_quantity r = quantity \<and>
         r_price r = Some price \<and>
         (\<exists>cs. calls w' = calls w @ cs \<and>
            submissions cs = [\<lparr>p_symbol = upper symbol, p_side = upper side, p_type = ''LIMIT'',
                               p_timeInForce = Some ''GTC'', p_quantity = quantity,
                               p_price = Some price\<rparr>])"
proof -
  let ?ps = "limit_order_params symbol side quantity price"
  obtain b w1 where v: "validate_limit_order_inputs self symbol side quantity price w = (b, w1)"
    by (cases "validate_limit_order_inputs self symbol side quantity price w")
  with assms have b: "b" by (cases b) (auto simp: place_limit_order_def)
  from v validate_limit_order_inputs_reads [of w self symbol side quantity price]
  obtain cs1 where cs1: "calls w1 = calls w @ cs1" "submissions cs1 = []"
    by (auto simp: reads_only_def)
  let ?w2 = "logger_info (Placing_limit_order side quantity symbol price) w1"
  obtain res w3 where c: "invoke (Futures_create_order ?ps)
        (futures_create_order (client self) ?ps) ?w2 = (res, w3)"
    by (cases "invoke (Futures_create_order ?ps) (futures_create_order (client self) ?ps) ?w2")
  then have w3: "calls w3 = calls w1 @ [Futures_create_order ?ps]"
    by (auto simp: invoke_eq)
  from assms v b c obtain order oid st where
    o: "res = Inr order" "orderId order = Some oid"
    and g: "limit_get_order_status self symbol oid (logger_info (Limit_order_placed order) w3)
              = (st, w')"
    and r: "r = \<lparr>r_order_id = oid, r_symbol = symbol, r_side = side, r_quantity = quantity,
                 r_price = Some price, r_type = ''LIMIT'', r_status = st,
                 r_raw_response = order\<rparr>"
    by (auto simp: place_limit_order_def Let_def split: sum.splits option.splits prod.splits)
  from limit_get_order_status_calls [OF g] w3 cs1
  have "calls w' = calls w @ (cs1 @ [Futures_create_order ?ps, Futures_get_order (upper symbol) oid])"
    by simp
  moreover have "submissions (cs1 @ [Futures_create_order ?ps, Futures_get_order (upper symbol) oid])
      = [?ps]"
    by (simp add: submissions_append cs1)
  ultimately have "\<exists>cs. calls w' = calls w @ cs \<and> submissions cs = [?ps]"
    by blast
  with r show ?thesis by (simp add: market_order_params_def limit_order_params_def)
qed

section \<open>Float arithmetic\<close>

subsection \<open>Rounding to binary64\<close>

lemma pow2_powi: "pow2 k = 2 powi k"
  by (simp add: pow2_def power_int_def field_simps)

lemma pow2_pos [simp]: "0 < pow2 k"
  by (simp add: pow2_powi)

lemma pow2_add: "pow2 (a + b) = pow2 a * pow2 b"
  by (simp add: pow2_powi power_int_add)

lemma pow2_mono: "a \<le> b \<Longrightarrow> pow2 a \<le> pow2 b"
  by (simp add: pow2_powi power_int_increasing)

lemma pow2_strict_mono: "a < b \<Longrightarrow> pow2 a < pow2 b"
  by (simp add: pow2_powi power_int_strict_increasing)

lemma pow2_nat: "pow2 (int n) = 2 ^ n"
  by (simp add: pow2_def)

lemma bitlen_pow2_bounds:
  assumes "0 < a"
  shows "pow2 (bitlen a - 1) \<le> of_int a" and "of_int a < pow2 (bitlen a)"
proof -
  from bitlen_bounds [OF assms]
  have 1: "2 ^ nat (bitlen a - 1) \<le> a" and 2: "a < 2 ^ nat (bitlen a)" by auto
  from assms have b: "1 \<le> bitlen a" by (auto simp: bitlen_alt_def)
  have "pow2 (bitlen a - 1) = of_int (2 ^ nat (bitlen a - 1))"
    using b by (simp add: pow2_def)
  also have "\<dots> \<le> of_int a" using 1 by (simp only: of_int_le_iff)
  finally show "pow2 (bitlen a - 1) \<le> of_int a" .
  have "(of_int a :: rat) < of_int (2 ^ nat (bitlen a))" using 2 by (simp only: of_int_less_iff)
  also have "\<dots> = pow2 (bitlen a)" using b by (simp add: pow2_def)
  finally show "of_int a < pow2 (bitlen a)" .
qed

lemma ilog2_bounds:
  assumes "x \<noteq> 0"
  shows "pow2 (ilog2 x) \<le> \<bar>x\<bar> \<and> \<bar>x\<bar> < pow2 (ilog2 x + 1)"
proof -
  obtain a b where q: "quotient_of \<bar>x\<bar> = (a, b)" by (cases "quotient_of \<bar>x\<bar>")
  then have b: "0 < b" by (rule quotient_of_denom_pos)
  from q have x: "\<bar>x\<bar> = of_int a / of_int b" by (rule quotient_of_div)
  from assms have "0 < \<bar>x\<bar>" by simp
  with x b have a: "0 < a" by (simp add: zero_less_divide_iff)
  let ?d = "bitlen a - bitlen b"
  note A = bitlen_pow2_bounds [OF a] and B = bitlen_pow2_bounds [OF b]
  have bq: "(0::rat) < of_int b" using b by simp
  have up: "\<bar>x\<bar> < pow2 (?d + 1)"
  proof -
    have "of_int a < pow2 (bitlen a)" by (rule A)
    also have "\<dots> = pow2 (?d + 1) * pow2 (bitlen b - 1)"
      by (simp add: pow2_add [symmetric])
    also have "\<dots> \<le> pow2 (?d + 1) * of_int b"
      using B(1) by (simp add: mult_left_mono)
    finally show ?thesis using bq by (simp add: x pos_divide_less_eq)
  qed
  have lo: "pow2 (?d - 1) \<le> \<bar>x\<bar>"
  proof -
    have "pow2 (?d - 1) * of_int b \<le> pow2 (?d - 1) * pow2 (bitlen b)"
      using B(2) by (simp add: mult_left_mono)
    also have "\<dots> = pow2 (bitlen a - 1)" by (simp add: pow2_add [symmetric])
    also have "\<dots> \<le> of_int a" by (rule A)
    finally show ?thesis using bq by (simp add: x pos_le_divide_eq)
  qed
  show ?thesis
  proof (cases "pow2 ?d \<le> \<bar>x\<bar>")
    case True
    with q have "ilog2 x = ?d" by (simp add: ilog2_def Let_def)
    with True up show ?thesis by simp
  next
    case False
    with q have "ilog2 x = ?d - 1" by (simp add: ilog2_def Let_def)
    with False lo show ?thesis by simp
  qed
qed

lemma ilog2_unique:
  assumes "pow2 e \<le> \<bar>x\<bar>" and "\<bar>x\<bar> < pow2 (e + 1)"
  shows "ilog2 x = e"
proof -
  from assms(1) pow2_pos [of e] have "0 < \<bar>x\<bar>" by linarith
  then have "x \<noteq> 0" by simp
  from ilog2_bounds [OF this]
  have 1: "pow2 (ilog2 x) \<le> \<bar>x\<bar>" and 2: "\<bar>x\<bar> < pow2 (ilog2 x + 1)" by auto
  have "\<not> ilog2 x < e"
  proof
    assume "ilog2 x < e"
    then have "pow2 (ilog2 x + 1) \<le> pow2 e" by (simp add: pow2_mono)
    with 2 assms(1) show False by simp
  qed
  moreover have "\<not> e < ilog2 x"
  proof
    assume "e < ilog2 x"
    then have "pow2 (e + 1) \<le> pow2 (ilog2 x)" by (simp add: pow2_mono)
    with 1 assms(2) show False by simp
  qed
  ultimately show ?thesis by simp
qed

lemma round_half_even_near:
  assumes "\<bar>z - of_int m\<bar> < 1 / 2"
  shows "round_half_even z = m"
proof -
  from assms have lo: "of_int m - 1 / 2 < z" and hi: "z < of_int m + 1 / 2"
    by linarith+
  show ?thesis
  proof (cases "of_int m \<le> z")
    case True
    with hi have "\<lfloor>z\<rfloor> = m" by (intro floor_unique) auto
    with hi show ?thesis by (simp add: round_half_even_def Let_def)
  next
    case False
    with lo have f: "\<lfloor>z\<rfloor> = m - 1" by (intro floor_unique) auto
    with lo have "1 / 2 < z - of_int \<lfloor>z\<rfloor>" by simp
    with f show ?thesis by (simp add: round_half_even_def Let_def)
  qed
qed

lemma round_half_even_int [simp]: "round_half_even (of_int m) = m"
  by (rule round_half_even_near) simp

lemma binary64_normal:
  assumes "pow2 e \<le> \<bar>x\<bar>" and "\<bar>x\<bar> < pow2 (e + 1)" and "- 1022 \<le> e"
    and "round_half_even (x / pow2 (e - 52)) = m"
    and "\<bar>of_int m * pow2 (e - 52)\<bar> \<le> max_float"
  shows "binary64 x = Finite (of_int m * pow2 (e - 52))"
proof -
  from assms(1) pow2_pos [of e] have "0 < \<bar>x\<bar>" by linarith
  then have "x \<noteq> 0" by simp
  moreover have "ilog2 x = e" using assms(1,2) by (rule ilog2_unique)
  moreover note \<open>x \<noteq> 0\<close>
  ultimately show ?thesis
    using assms(3,4,5) \<open>x \<noteq> 0\<close> by (simp add: binary64_def Let_def max_def)
qed

subsection \<open>The values of the scenarios\<close>

lemma b64_float_0_01: "binary64 (1 / 100) = Finite (5764607523034235 / 576460752303423488)"
proof -
  have "binary64 (1 / 100) = Finite (of_int 5764607523034235 * pow2 ((- 7) - 52))"
    by (rule binary64_normal; simp add: pow2_def max_float_def)
       (rule round_half_even_near, simp)
  then show ?thesis by (simp add: pow2_def)
qed

lemma float_0_01_val: "float_0_01 = Finite (5764607523034235 / 576460752303423488)"
  unfolding float_0_01_def by (rule b64_float_0_01)

lemma b64_float_0_001: "binary64 (1 / 1000) = Finite (1152921504606847 / 1152921504606846976)"
proof -
  have "binary64 (1 / 1000) = Finite (of_int 4611686018427388 * pow2 ((- 10) - 52))"
    by (rule binary64_normal; simp add: pow2_def max_float_def)
       (rule round_half_even_near, simp)
  then show ?thesis by (simp add: pow2_def)
qed

lemma float_0_001_val: "float_0_001 = Finite (1152921504606847 / 1152921504606846976)"
  unfolding float_0_001_def by (rule b64_float_0_001)

lemma b64_float_0_0005: "binary64 (5 / 10000) = Finite (1152921504606847 / 2305843009213693952)"
proof -
  have "binary64 (5 / 10000) = Finite (of_int 4611686018427388 * pow2 ((- 11) - 52))"
    by (rule binary64_normal; simp add: pow2_def max_float_def)
       (rule round_half_even_near, simp)
  then show ?thesis by (simp add: pow2_def)
qed

lemma float_0_0005_val: "float_0_0005 = Finite (1152921504606847 / 2305843009213693952)"
  unfolding float_0_0005_def by (rule b64_float_0_0005)

lemma b64_float_100_005: "binary64 (100005 / 1000) = Finite (879653282685911 / 8796093022208)"
proof -
  have "binary64 (100005 / 1000) = Finite (of_int 7037226261487288 * pow2 (6 - 52))"
    by (rule binary64_normal; simp add: pow2_def max_float_def)
       (rule round_half_even_near, simp)
  then show ?thesis by (simp add: pow2_def)
qed

lemma float_100_005_val: "float_100_005 = Finite (879653282685911 / 8796093022208)"
  unfolding float_100_005_def by (rule b64_float_100_005)

lemma b64_float_1e_10: "binary64 (1 / 10 ^ 10) = Finite (7737125245533627 / 77371252455336267181195264)"
proof -
  have "binary64 (1 / 10 ^ 10) = Finite (of_int 7737125245533627 * pow2 ((- 34) - 52))"
    by (rule binary64_normal; simp add: pow2_def max_float_def)
       (rule round_half_even_near, simp)
  then show ?thesis by (simp add: pow2_def)
qed

lemma float_1e_10_val: "float_1e_10 = Finite (7737125245533627 / 77371252455336267181195264)"
  unfolding float_1e_10_def by (rule b64_float_1e_10)

lemma b64_float_65432_17: "binary64 (6543217 / 100) = Finite (4496464484100997 / 68719476736)"
proof -
  have "binary64 (6543217 / 100) = Finite (of_int 8992928968201994 * pow2 (15 - 52))"
    by (rule binary64_normal; simp add: pow2_def max_float_def)
       (rule round_half_even_near, simp)
  then show ?thesis by (simp add: pow2_def)
qed

lemma float_65432_17_val: "float_65432_17 = Finite (4496464484100997 / 68719476736)"
  unfolding float_65432_17_def by (rule b64_float_65432_17)

lemmas float_literals =
  float_0_01_val float_0_001_val float_0_0005_val float_100_005_val float_1e_10_val
  float_65432_17_val

lemma b64_div_100: "binary64 (100 / (5764607523034235 / 576460752303423488)) = Finite (10000)"
proof -
  have "binary64 (100 / (5764607523034235 / 576460752303423488)) = Finite (of_int 5497558138880000 * pow2 (13 - 52))"
    by (rule binary64_normal; simp add: pow2_def max_float_def)
       (rule round_half_even_near, simp)
  then show ?thesis by (simp add: pow2_def)
qed

lemma b64_int_10000: "binary64 (of_int 10000) = Finite (10000)"
proof -
  have "binary64 (of_int 10000) = Finite (of_int 5497558138880000 * pow2 (13 - 52))"
    by (rule binary64_normal; simp add: pow2_def max_float_def)
       (rule round_half_even_near, simp)
  then show ?thesis by (simp add: pow2_def)
qed

lemma b64_mul_100: "binary64 (10000 * (5764607523034235 / 576460752303423488)) = Finite (100)"
proof -
  have "binary64 (10000 * (5764607523034235 / 576460752303423488)) = Finite (of_int 7036874417766400 * pow2 (6 - 52))"
    by (rule binary64_normal; simp add: pow2_def max_float_def)
       (rule round_half_even_near, simp)
  then show ?thesis by (simp add: pow2_def)
qed

lemma b64_tol: "binary64 (5764607523034235 / 576460752303423488 * (7737125245533627 / 77371252455336267181195264)) = Finite (4951760157141521 / 4951760157141521099596496896)"
proof -
  have "binary64 (5764607523034235 / 576460752303423488 * (7737125245533627 / 77371252455336267181195264)) = Finite (of_int 4951760157141521 * pow2 ((- 40) - 52))"
    by (rule binary64_normal; simp add: pow2_def max_float_def)
       (rule round_half_even_near, simp)
  then show ?thesis by (simp add: pow2_def)
qed

lemma b64_div_off: "binary64 (879653282685911 / 8796093022208 / (5764607523034235 / 576460752303423488)) = Finite (20001 / 2)"
proof -
  have "binary64 (879653282685911 / 8796093022208 / (5764607523034235 / 576460752303423488)) = Finite (of_int 5497833016786944 * pow2 (13 - 52))"
    by (rule binary64_normal; simp add: pow2_def max_float_def)
       (rule round_half_even_near, simp)
  then show ?thesis by (simp add: pow2_def)
qed

lemma b64_mul_off: "binary64 (10000 * (5764607523034235 / 576460752303423488)) = Finite (100)"
proof -
  have "binary64 (10000 * (5764607523034235 / 576460752303423488)) = Finite (of_int 7036874417766400 * pow2 (6 - 52))"
    by (rule binary64_normal; simp add: pow2_def max_float_def)
       (rule round_half_even_near, simp)
  then show ?thesis by (simp add: pow2_def)
qed

lemma b64_sub_off: "binary64 (879653282685911 / 8796093022208 - 100) = Finite (43980465111 / 8796093022208)"
proof -
  have "binary64 (879653282685911 / 8796093022208 - 100) = Finite (of_int 5764607523028992 * pow2 ((- 8) - 52))"
    by (rule binary64_normal; simp add: pow2_def max_float_def)
       (rule round_half_even_near, simp)
  then show ?thesis by (simp add: pow2_def)
qed

lemma b64_div_btc: "binary64 (4496464484100997 / 68719476736 / (5764607523034235 / 576460752303423488)) = Finite (6543217)"
proof -
  have "binary64 (4496464484100997 / 68719476736 / (5764607523034235 / 576460752303423488)) = Finite (of_int 7025725756407808 * pow2 (22 - 52))"
    by (rule binary64_normal; simp add: pow2_def max_float_def)
       (rule round_half_even_near, simp)
  then show ?thesis by (simp add: pow2_def)
qed

lemma b64_int_btc: "binary64 (of_int 6543217) = Finite (6543217)"
proof -
  have "binary64 (of_int 6543217) = Finite (of_int 7025725756407808 * pow2 (22 - 52))"
    by (rule binary64_normal; simp add: pow2_def max_float_def)
       (rule round_half_even_near, simp)
  then show ?thesis by (simp add: pow2_def)
qed

lemma b64_mul_btc: "binary64 (6543217 * (5764607523034235 / 576460752303423488)) = Finite (4496464484100997 / 68719476736)"
proof -
  have "binary64 (6543217 * (5764607523034235 / 576460752303423488)) = Finite (of_int 8992928968201994 * pow2 (15 - 52))"
    by (rule binary64_normal; simp add: pow2_def max_float_def)
       (rule round_half_even_near, simp)
  then show ?thesis by (simp add: pow2_def)
qed

lemma binary64_zero [simp]: "binary64 0 = Finite 0"
  by (simp add: binary64_def)

lemma round_half_even_numeral [simp]: "round_half_even (numeral k) = numeral k"
  using round_half_even_int [of "numeral k"] by simp

lemma round_half_even_tie:
  assumes "z = of_int m + 1 / 2" and "even m"
  shows "round_half_even z = m"
proof -
  have "\<lfloor>z\<rfloor> = m" unfolding assms(1) by (intro floor_unique) auto
  with assms show ?thesis by (simp add: round_half_even_def Let_def)
qed

lemma rounded_to_tick_eval:
  assumes "t \<noteq> 0" and "binary64 (p / t) = Finite q" and "round_half_even q = n"
    and "binary64 (of_int n) = Finite nf" and "binary64 (nf * t) = Finite r"
  shows "rounded_to_tick (Finite p) (Finite t) = Inr (Finite r)"
  using assms by (simp add: rounded_to_tick_def fdiv_def int_to_float_def fmul_def)

lemma tolerance_eval:
  assumes "float_1e_10 = Finite c" and "binary64 (t * c) = Finite tol"
    and "binary64 (p - r) = Finite d"
  shows "fle (fabs (fsub (Finite p) (Finite r))) (fmul (Finite t) float_1e_10) \<longleftrightarrow> \<bar>d\<bar> \<le> tol"
  unfolding assms(1) using assms(2,3) by (simp add: fsub_def fmul_def)

lemma tick_100: "rounded_to_tick (Finite 100) float_0_01 = Inr (Finite 100)"
  unfolding float_0_01_val
  by (rule rounded_to_tick_eval [OF _ b64_div_100 _ b64_int_10000 b64_mul_100]) simp_all

lemma tick_100_accept:
  "fle (fabs (fsub (Finite 100) (Finite 100))) (fmul float_0_01 float_1e_10)"
  unfolding float_0_01_val
  by (subst tolerance_eval [OF float_1e_10_val b64_tol, of _ _ 0]) simp_all

lemma tick_off: "rounded_to_tick float_100_005 float_0_01 = Inr (Finite 100)"
  unfolding float_0_01_val float_100_005_val
  by (rule rounded_to_tick_eval [OF _ b64_div_off _ b64_int_10000 b64_mul_off],
      simp, rule round_half_even_tie, simp_all)

lemma tick_off_reject:
  "\<not> fle (fabs (fsub float_100_005 (Finite 100))) (fmul float_0_01 float_1e_10)"
  unfolding float_0_01_val float_100_005_val
  by (subst tolerance_eval [OF float_1e_10_val b64_tol b64_sub_off]) simp

lemma tick_btc: "rounded_to_tick float_65432_17 float_0_01 = Inr float_65432_17"
  unfolding float_0_01_val float_65432_17_val
  by (rule rounded_to_tick_eval [OF _ b64_div_btc _ b64_int_btc b64_mul_btc]) simp_all

lemma tick_btc_accept:
  "fle (fabs (fsub float_65432_17 float_65432_17)) (fmul float_0_01 float_1e_10)"
  unfolding float_0_01_val float_65432_17_val
  by (subst tolerance_eval [OF float_1e_10_val b64_tol, of _ _ 0]) simp_all

section \<open>Reading the exchange metadata\<close>

lemma flt_not_fle: "flt a b \<Longrightarrow> \<not> fle b a"
  by (cases a; cases b) simp_all

lemma flt_not_fge: "flt a b \<Longrightarrow> \<not> fge a b"
  by (simp add: fge_def flt_not_fle)

lemma quantity_filter_loop_found:
  assumes "\<forall>x \<in> set fpre. \<exists>ty. filterType x = Some ty \<and> ty \<noteq> ''LOT_SIZE''"
    and "filterType f = Some ''LOT_SIZE''" and "minQty f = Some (Inr m)"
  shows "quantity_filter_loop symbol q (fpre @ f # fpost) w =
           (if fge q m then (Inr (Some True), logger_info (Quantity_is_valid q symbol) w)
            else (Inr (Some False), logger_warning (Quantity_below_minimum q m symbol) w))"
  using assms by (induction fpre) auto

lemma quantity_symbol_loop_found:
  assumes "\<forall>x \<in> set pre. \<exists>n. sym_symbol x = Some n \<and> n \<noteq> upper symbol"
    and "sym_symbol s = Some (upper symbol)" and "sym_filters s = Some (fpre @ f # fpost)"
    and "\<forall>x \<in> set fpre. \<exists>ty. filterType x = Some ty \<and> ty \<noteq> ''LOT_SIZE''"
    and "filterType f = Some ''LOT_SIZE''" and "minQty f = Some (Inr m)"
  shows "quantity_symbol_loop symbol q (pre @ s # post) w =
           (if fge q m then (Inr (Some True), logger_info (Quantity_is_valid q symbol) w)
            else (Inr (Some False), logger_warning (Quantity_below_minimum q m symbol) w))"
  using assms(1)
proof (induction pre)
  case Nil
  show ?case
    using assms(2,3) quantity_filter_loop_found [OF assms(4,5,6), of symbol q fpost w]
    by simp
next
  case (Cons x pre)
  then show ?case by auto
qed

lemma validate_quantity_found:
  assumes "fst (futures_exchange_info (client self) (exchange w)) = Inr info"
    and "symbols info = Some (pre @ s # post)"
    and "\<forall>x \<in> set pre. \<exists>n. sym_symbol x = Some n \<and> n \<noteq> upper symbol"
    and "sym_symbol s = Some (upper symbol)" and "sym_filters s = Some (fpre @ f # fpost)"
    and "\<forall>x \<in> set fpre. \<exists>ty. filterType x = Some ty \<and> ty \<noteq> ''LOT_SIZE''"
    and "filterType f = Some ''LOT_SIZE''" and "minQty f = Some (Inr m)"
  shows "validate_quantity self symbol q w =
           (let w1 = w\<lparr>exchange := snd (futures_exchange_info (client self) (exchange w)),
                       calls := calls w @ [Futures_exchange_info]\<rparr>
            in if fge q m then (True, logger_info (Quantity_is_valid q symbol) w1)
               else (False, logger_warning (Quantity_below_minimum q m symbol) w1))"
  using assms(1,2)
  by (simp add: validate_quantity_def invoke_eq Let_def
        quantity_symbol_loop_found [OF assms(3-8)])

lemma validate_symbol_listed:
  assumes "fst (futures_exchange_info (client self) (exchange w)) = Inr info"
    and "symbols info = Some ss" and "trading_symbols ss = Inr names"
    and "upper symbol \<in> set names"
  shows "validate_symbol self symbol w =
           (True, logger_info (Symbol_is_valid symbol)
                    (w\<lparr>exchange := snd (futures_exchange_info (client self) (exchange w)),
                       calls := calls w @ [Futures_exchange_info]\<rparr>))"
  using assms by (simp add: validate_symbol_def validate_symbol_with_def invoke_eq Let_def)

lemma btc_symbol_valid:
  assumes "fst (futures_exchange_info (client self) (exchange w)) = Inr btc_info"
    and "upper symbol = ''BTCUSDT''"
  shows "validate_symbol self symbol w =
           (True, logger_info (Symbol_is_valid symbol)
                    (w\<lparr>exchange := snd (futures_exchange_info (client self) (exchange w)),
                       calls := calls w @ [Futures_exchange_info]\<rparr>))"
  by (rule validate_symbol_listed [OF assms(1), of "[btc_symbol]" "[''BTCUSDT'']"])
     (simp_all add: btc_info_def btc_symbol_def assms(2))

lemma btc_quantity:
  assumes "fst (futures_exchange_info (client self) (exchange w)) = Inr btc_info"
    and "upper symbol = ''BTCUSDT''"
  shows "validate_quantity self symbol q w =
           (let w1 = w\<lparr>exchange := snd (futures_exchange_info (client self) (exchange w)),
                       calls := calls w @ [Futures_exchange_info]\<rparr>
            in if fge q float_0_001
               then (True, logger_info (Quantity_is_valid q symbol) w1)
               else (False, logger_warning
                              (Quantity_below_minimum q float_0_001 symbol) w1))"
  by (rule validate_quantity_found
        [OF assms(1), of "[]" btc_symbol "[]" symbol "[btc_price_filter]" btc_lot_filter "[]"])
     (simp_all add: btc_info_def btc_symbol_def btc_price_filter_def btc_lot_filter_def assms(2))

lemma mock_infos [simp]:
  "futures_exchange_info mock_client g = (Inr btc_info, g)"
  "futures_exchange_info no_status_client g = (Inr btc_info, g)"
  "futures_exchange_info reject_client g = (Inr btc_info, g)"
  "client (mock_bot c) = c" "exchange w0 = 0" "calls w0 = []" "log w0 = []"
  by (simp_all add: mock_client_def no_status_client_def reject_client_def mock_bot_def w0_def)

lemma upper_examples:
  "upper ''BTCUSDT'' = ''BTCUSDT''" "upper ''btcusdt'' = ''BTCUSDT''"
  "upper ''buy'' = ''BUY''" "upper ''Sell'' = ''SELL''" "upper ''FAKEUSDT'' = ''FAKEUSDT''"
  "upper ''ETHUSDT'' = ''ETHUSDT''" "upper ''sell'' = ''SELL''"
  by code_simp+

lemma quantity_examples:
  "fge float_0_001 float_0_001"
  "\<not> fle float_0_001 (Finite 0)"
  "flt (Finite 0) float_0_001"
  "\<not> fge float_0_0005 float_0_001"
  "\<not> fle float_0_0005 (Finite 0)"
  "flt (Finite 0) float_0_0005"
  "flt float_0_0005 float_0_001"
  by (simp_all add: float_literals fge_def)

section \<open>Reading the price filter\<close>

lemma find_symbol_found:
  assumes "\<forall>x \<in> set pre. \<exists>n. sym_symbol x = Some n \<and> n \<noteq> upper symbol"
    and "sym_symbol s = Some (upper symbol)"
  shows "find_symbol symbol (pre @ s # post) = Inr (Some s)"
  using assms by (induction pre) auto

lemma get_symbol_info_found:
  assumes "fst (futures_exchange_info (client self) (exchange w)) = Inr info"
    and "symbols info = Some (pre @ s # post)"
    and "\<forall>x \<in> set pre. \<exists>n. sym_symbol x = Some n \<and> n \<noteq> upper symbol"
    and "sym_symbol s = Some (upper symbol)"
  shows "get_symbol_info self symbol w =
           (Some s, w\<lparr>exchange := snd (futures_exchange_info (client self) (exchange w)),
                      calls := calls w @ [Futures_exchange_info]\<rparr>)"
  using assms(1,2)
  by (simp add: get_symbol_info_def invoke_eq find_symbol_found [OF assms(3,4)])

lemma price_filter_loop_found:
  assumes "\<forall>x \<in> set fpre. \<exists>ty. filterType x = Some ty \<and> ty \<noteq> ''PRICE_FILTER''"
    and "filterType f = Some ''PRICE_FILTER''" and "tickSize f = Some (Inr tick_size)"
  shows "price_filter_loop symbol price (fpre @ f # fpost) w =
           (case rounded_to_tick price tick_size of
              Inl e \<Rightarrow> (Inl e, w)
            | Inr rounded_price \<Rightarrow>
                if fle (fabs (fsub price rounded_price)) (fmul tick_size float_1e_10)
                then (Inr (Some True), w)
                else (Inr (Some False),
                      logger_error (Price_off_tick price tick_size symbol rounded_price) w))"
  using assms by (induction fpre) (auto simp: Let_def split: sum.splits)

lemma price_filter_loop_none:
  assumes "\<forall>x \<in> set fs. \<exists>ty. filterType x = Some ty \<and> ty \<noteq> ''PRICE_FILTER''"
  shows "price_filter_loop symbol price fs w = (Inr None, w)"
  using assms by (induction fs) auto

lemma validate_price_precision_found:
  assumes "fst (futures_exchange_info (client self) (exchange w)) = Inr info"
    and "symbols info = Some (pre @ s # post)"
    and "\<forall>x \<in> set pre. \<exists>n. sym_symbol x = Some n \<and> n \<noteq> upper symbol"
    and "sym_symbol s = Some (upper symbol)"
    and "sym_filters s = Some (fpre @ f # fpost)"
    and "\<forall>x \<in> set fpre. \<exists>ty. filterType x = Some ty \<and> ty \<noteq> ''PRICE_FILTER''"
    and "filterType f = Some ''PRICE_FILTER''" and "tickSize f = Some (Inr tick_size)"
  shows "fst (validate_price_precision self symbol price w) =
           (case rounded_to_tick price tick_size of
              Inl e \<Rightarrow> False
            | Inr rounded_price \<Rightarrow>
                fle (fabs (fsub price rounded_price)) (fmul tick_size float_1e_10))"
  using assms(5)
  by (simp add: validate_price_precision_def get_symbol_info_found [OF assms(1-4)]
        price_filter_loop_found [OF assms(6-8)] split: sum.splits)

lemma btc_price:
  assumes "fst (futures_exchange_info (client self) (exchange w)) = Inr btc_info"
    and "upper symbol = ''BTCUSDT''"
  shows "fst (validate_price_precision self symbol price w) =
           (case rounded_to_tick price float_0_01 of
              Inl e \<Rightarrow> False
            | Inr rounded_price \<Rightarrow>
                fle (fabs (fsub price rounded_price)) (fmul float_0_01 float_1e_10))"
  by (rule validate_price_precision_found
        [OF assms(1), of "[]" btc_symbol "[]" symbol "[]" btc_price_filter "[btc_lot_filter]"])
     (simp_all add: btc_info_def btc_symbol_def btc_price_filter_def assms(2))

text \<open>Validation against the metadata of the test double, whatever the state of the exchange.\<close>

lemma btc_market_inputs:
  assumes "\<forall>g. fst (futures_exchange_info (client self) g) = Inr btc_info"
    and "upper symbol = ''BTCUSDT''" and "upper side \<in> set [''BUY'', ''SELL'']"
    and "\<not> fle quantity (Finite 0)"
  shows "fst (validate_market_order_inputs self symbol side quantity w) = fge quantity float_0_001"
  using assms
  by (simp add: validate_market_order_inputs_def btc_symbol_valid btc_quantity Let_def)

lemma btc_limit_inputs:
  assumes "\<forall>g. fst (futures_exchange_info (client self) g) = Inr btc_info"
    and "upper symbol = ''BTCUSDT''" and "upper side \<in> set [''BUY'', ''SELL'']"
    and "\<not> fle quantity (Finite 0)" and "\<not> fle price (Finite 0)"
  shows "fst (validate_limit_order_inputs self symbol side quantity price w) =
           (fge quantity float_0_001 \<and>
            (case rounded_to_tick price float_0_01 of
               Inl e \<Rightarrow> False
             | Inr rounded_price \<Rightarrow>
                 fle (fabs (fsub price rounded_price)) (fmul float_0_01 float_1e_10)))"
proof -
  obtain w1 where s: "validate_symbol self symbol w = (True, w1)"
    using assms(1,2) by (simp add: btc_symbol_valid)
  have "fst (validate_quantity self symbol quantity w1) = fge quantity float_0_001"
    using assms(1,2) by (simp add: btc_quantity Let_def)
  then obtain w2 where
    q: "validate_quantity self symbol quantity w1 = (fge quantity float_0_001, w2)"
    by (cases "validate_quantity self symbol quantity w1") auto
  have p: "fst (validate_price_precision self symbol price w2) =
           (case rounded_to_tick price float_0_01 of
               Inl e \<Rightarrow> False
             | Inr rounded_price \<Rightarrow>
                 fle (fabs (fsub price rounded_price)) (fmul float_0_01 float_1e_10))"
    using assms(1,2) by (intro btc_price) auto
  obtain b w3 where v: "validate_price_precision self symbol price w2 = (b, w3)"
    by (cases "validate_price_precision self symbol price w2")
  show ?thesis
    using assms(3,4,5) p
    by (cases b; cases "fge quantity float_0_001")
       (simp_all add: validate_limit_order_inputs_def s q v)
qed

text \<open>Metadata without a lot-size filter.\<close>

lemma quantity_filter_loop_no_lot:
  assumes "\<forall>f \<in> set fs. filterType f \<noteq> Some ''LOT_SIZE''"
  shows "quantity_filter_loop symbol q fs w = (Inr None, w) \<or>
         (\<exists>e. quantity_filter_loop symbol q fs w = (Inl e, w))"
  using assms by (induction fs) (auto split: option.splits)

lemma quantity_symbol_loop_no_lot:
  assumes "\<forall>s \<in> set ss. \<forall>fs. sym_symbol s = Some (upper symbol) \<and> sym_filters s = Some fs \<longrightarrow>
             (\<forall>f \<in> set fs. filterType f \<noteq> Some ''LOT_SIZE'')"
  shows "quantity_symbol_loop symbol q ss w = (Inr None, w) \<or>
         (\<exists>e. quantity_symbol_loop symbol q ss w = (Inl e, w))"
  using assms
proof (induction ss)
  case Nil
  show ?case by simp
next
  case (Cons s ss)
  then have IH: "quantity_symbol_loop symbol q ss w = (Inr None, w) \<or>
         (\<exists>e. quantity_symbol_loop symbol q ss w = (Inl e, w))" by simp
  show ?case
  proof (cases "sym_symbol s = Some (upper symbol) \<and> sym_filters s \<noteq> None")
    case True
    then obtain fs where fs: "sym_filters s = Some fs" by auto
    with True Cons.prems have "\<forall>f \<in> set fs. filterType f \<noteq> Some ''LOT_SIZE''" by simp
    from quantity_filter_loop_no_lot [OF this, of symbol q w] True fs IH
    show ?thesis by auto
  next
    case False
    with IH show ?thesis by (auto split: option.splits)
  qed
qed

lemma bare_info [simp]: "futures_exchange_info bare_client g = (Inr eth_info, g)"
  by (simp add: bare_client_def)

section \<open>Outcomes of order placement\<close>

lemma place_market_order_rejected:
  "\<not> fst (validate_market_order_inputs self symbol side quantity w) \<Longrightarrow>
   fst (place_market_order self symbol side quantity w) = None"
  by (auto simp: place_market_order_def split: prod.splits bool.splits)

lemma place_limit_order_rejected:
  "\<not> fst (validate_limit_order_inputs self symbol side quantity price w) \<Longrightarrow>
   fst (place_limit_order self symbol side quantity price w) = None"
  by (auto simp: place_limit_order_def split: prod.splits bool.splits)

lemma place_limit_order_accepted:
  assumes "fst (validate_limit_order_inputs self symbol side quantity price w)"
    and "\<forall>ps g. \<exists>order order_id g'.
           futures_create_order (client self) ps g = (Inr order, g') \<and>
           orderId order = Some order_id"
  shows "\<exists>r. fst (place_limit_order self symbol side quantity price w) = Some r \<and>
             r_quantity r = quantity \<and> r_price r = Some price"
proof -
  obtain w1 where v: "validate_limit_order_inputs self symbol side quantity price w = (True, w1)"
    using assms(1) by (cases "validate_limit_order_inputs self symbol side quantity price w") auto
  let ?w2 = "logger_info (Placing_limit_order side quantity symbol price) w1"
  from assms(2) obtain order order_id g' where
    c: "futures_create_order (client self) (limit_order_params symbol side quantity price)
          (exchange ?w2) = (Inr order, g')" and o: "orderId order = Some order_id"
    by blast
  show ?thesis
    using v c o
    by (simp add: place_limit_order_def invoke_eq Let_def split: prod.splits)
qed

lemma market_submission_error:
  assumes "validate_market_order_inputs self symbol side quantity w = (True, w1)"
    and "fst (futures_create_order (client self) (market_order_params symbol side quantity)
               (exchange w1)) = Inl e"
  shows "fst (place_market_order self symbol side quantity w) = None \<and>
         last (log (snd (place_market_order self symbol side quantity w)))
           = (ERROR, Failed_market_order e)"
  using assms by (simp add: place_market_order_def invoke_eq Let_def)

lemma market_status_error:
  assumes "validate_market_order_inputs self symbol side quantity w = (True, w1)"
    and "futures_create_order (client self) (market_order_params symbol side quantity)
           (exchange w1) = (Inr order, g)"
    and "orderId order = Some order_id"
    and "fst (futures_get_order (client self) (upper symbol) order_id g) = Inl e"
  shows "fst (place_market_order self symbol side quantity w) =
           Some \<lparr>r_order_id = order_id, r_symbol = symbol, r_side = side, r_quantity = quantity,
                 r_price = None, r_type = ''MARKET'', r_status = None,
                 r_raw_response = order\<rparr> \<and>
         last (log (snd (place_market_order self symbol side quantity w)))
           = (ERROR, Failed_order_status e)"
  using assms
  by (simp add: place_market_order_def market_get_order_status_def invoke_eq Let_def)

lemma limit_submission_error:
  assumes "validate_limit_order_inputs self symbol side quantity price w = (True, w1)"
    and "fst (futures_create_order (client self) (limit_order_params symbol side quantity price)
               (exchange w1)) = Inl e"
  shows "fst (place_limit_order self symbol side quantity price w) = None \<and>
         last (log (snd (place_limit_order self symbol side quantity price w)))
           = (ERROR, Failed_limit_order e)"
  using assms by (simp add: place_limit_order_def invoke_eq Let_def)

lemma limit_status_error:
  assumes "validate_limit_order_inputs self symbol side quantity price w = (True, w1)"
    and "futures_create_order (client self) (limit_order_params symbol side quantity price)
           (exchange w1) = (Inr order, g)"
    and "orderId order = Some order_id"
    and "fst (futures_get_order (client self) (upper symbol) order_id g) = Inl e"
  shows "fst (place_limit_order self symbol side quantity price w) =
           Some \<lparr>r_order_id = order_id, r_symbol = symbol, r_side = side, r_quantity = quantity,
                 r_price = Some price, r_type = ''LIMIT'', r_status = None,
                 r_raw_response = order\<rparr> \<and>
         last (log (snd (place_limit_order self symbol side quantity price w)))
           = (ERROR, Failed_order_status e)"
  using assms
  by (simp add: place_limit_order_def limit_get_order_status_def invoke_eq Let_def)


lemma mock_creates [simp]:
  "futures_create_order mock_client ps g = (Inr \<lparr>orderId = Some (int g), other_fields = []\<rparr>, Suc g)"
  "futures_create_order no_status_client ps g =
     (Inr \<lparr>orderId = Some (int g), other_fields = []\<rparr>, Suc g)"
  "futures_create_order reject_client ps g = (Inl (ApiError ''rejected''), g)"
  "futures_get_order no_status_client sy oid g = (Inl (ApiError ''timeout''), g)"
  by (simp_all add: mock_client_def no_status_client_def reject_client_def)

section \<open>Symbol validation\<close>

text \<open>
  Claim C6. Let \<open>up\<close> be the upper-casing function, of which only idempotence is used:
  upper-casing an upper-cased string changes nothing, as is the case of \<^verbatim>\<open>str.upper\<close>. For
  every symbol string \<open>s\<close>, \<^verbatim>\<open>validate_symbol\<close> accepts \<open>s\<close> if and only if it accepts the
  upper-cased form of \<open>s\<close>, against the same exchange metadata (both calls leave the
  exchange in the same state); so \<^verbatim>\<open>"btcusdt"\<close> and \<^verbatim>\<open>"BTCUSDT"\<close> have the same outcome. A
  symbol is accepted only when its upper-cased form is the symbol of an entry of the
  exchange metadata whose status is \<^verbatim>\<open>TRADING\<close>.
\<close>

theorem validate_symbol_case_insensitive:
  assumes "\<forall>s. up (up s) = up s"
  shows
  "fst (validate_symbol_with up self symbol w) =
     fst (validate_symbol_with up self (up symbol) w) \<and>
   exchange (snd (validate_symbol_with up self symbol w)) =
     exchange (snd (validate_symbol_with up self (up symbol) w)) \<and>
   (fst (validate_symbol_with up self symbol w) \<longrightarrow>
      (\<exists>info ss. fst (futures_exchange_info (client self) (exchange w)) = Inr info \<and>
         symbols info = Some ss \<and>
         (\<exists>s \<in> set ss. sym_symbol s = Some (up symbol) \<and> sym_status s = Some ''TRADING'')))"
proof (intro conjI impI)
  from assms have idem: "up (up symbol) = up symbol" by simp
  show "fst (validate_symbol_with up self symbol w) =
        fst (validate_symbol_with up self (up symbol) w)"
    by (simp add: validate_symbol_with_def invoke_eq idem Let_def
             split: sum.splits option.splits)
  show "exchange (snd (validate_symbol_with up self symbol w)) =
        exchange (snd (validate_symbol_with up self (up symbol) w))"
    by (simp add: validate_symbol_with_def invoke_eq idem Let_def
             split: sum.splits option.splits)
next
  assume ok: "fst (validate_symbol_with up self symbol w)"
  then obtain info ss names where
    r: "fst (futures_exchange_info (client self) (exchange w)) = Inr info"
    and s: "symbols info = Some ss"
    and t: "trading_symbols ss = Inr names"
    and m: "up symbol \<in> set names"
    by (auto simp: validate_symbol_with_def invoke_eq Let_def
             split: sum.splits option.splits if_splits)
  from m trading_symbols_set [OF t]
  have "\<exists>s \<in> set ss. sym_symbol s = Some (up symbol) \<and> sym_status s = Some ''TRADING''"
    by auto
  with r s show "\<exists>info ss. fst (futures_exchange_info (client self) (exchange w)) = Inr info \<and>
         symbols info = Some ss \<and>
         (\<exists>s \<in> set ss. sym_symbol s = Some (up symbol) \<and> sym_status s = Some ''TRADING'')"
    by blast
qed

theorem validate_symbol_case_insensitive_witness:
  "fst (validate_symbol_with upper (mock_bot mock_client) ''btcusdt'' w0) \<and>
   fst (validate_symbol_with upper (mock_bot mock_client) ''BTCUSDT'' w0) \<and>
   (\<exists>info ss. fst (futures_exchange_info (client (mock_bot mock_client)) (exchange w0)) = Inr info \<and>
      symbols info = Some ss \<and>
      (\<exists>s \<in> set ss. sym_symbol s = Some ''BTCUSDT'' \<and> sym_status s = Some ''TRADING''))"
proof -
  have i: "\<forall>s. upper (upper s) = upper s" by (simp add: upper_idem)
  have u: "upper ''btcusdt'' = ''BTCUSDT''" by code_simp
  have v: "fst (validate_symbol_with upper (mock_bot mock_client) ''btcusdt'' w0)" by code_simp
  from validate_symbol_case_insensitive [OF i, of "mock_bot mock_client" "''btcusdt''" w0] v
  show ?thesis unfolding u by simp
qed

section \<open>Session construction\<close>



section \<open>Account balance\<close>




section \<open>Order placement\<close>

text \<open>
  Claim C2. For every input on which validation fails, \<^verbatim>\<open>place_market_order\<close> and
  \<^verbatim>\<open>place_limit_order\<close> return \<^verbatim>\<open>None\<close>, and the client calls they make contain no order
  submission.
\<close>

theorem rejected_input_places_no_order:
  "(\<not> fst (validate_market_order_inputs self symbol side quantity w) \<longrightarrow>
      fst (place_market_order self symbol side quantity w) = None \<and>
      (\<exists>cs. calls (snd (place_market_order self symbol side quantity w)) = calls w @ cs \<and>
            submissions cs = [])) \<and>
   (\<not> fst (validate_limit_order_inputs self symbol side quantity price w) \<longrightarrow>
      fst (place_limit_order self symbol side quantity price w) = None \<and>
      (\<exists>cs. calls (snd (place_limit_order self symbol side quantity price w)) = calls w @ cs \<and>
            submissions cs = []))"
proof (intro conjI impI)
  assume "\<not> fst (validate_market_order_inputs self symbol side quantity w)"
  then have "place_market_order self symbol side quantity w =
      (None, snd (validate_market_order_inputs self symbol side quantity w))"
    by (auto simp: place_market_order_def split: prod.splits bool.splits)
  with validate_market_order_inputs_reads [of w self symbol side quantity]
  show "fst (place_market_order self symbol side quantity w) = None"
    and "\<exists>cs. calls (snd (place_market_order self symbol side quantity w)) = calls w @ cs \<and>
            submissions cs = []"
    by (simp_all add: reads_only_def)
next
  assume "\<not> fst (validate_limit_order_inputs self symbol side quantity price w)"
  then have "place_limit_order self symbol side quantity price w =
      (None, snd (validate_limit_order_inputs self symbol side quantity price w))"
    by (auto simp: place_limit_order_def split: prod.splits bool.splits)
  with validate_limit_order_inputs_reads [of w self symbol side quantity price]
  show "fst (place_limit_order self symbol side quantity price w) = None"
    and "\<exists>cs. calls (snd (place_limit_order self symbol side quantity price w)) = calls w @ cs \<and>
            submissions cs = []"
    by (simp_all add: reads_only_def)
qed


theorem rejected_input_places_no_order_witness:
  "\<not> fst (validate_market_order_inputs (mock_bot mock_client) ''FAKEUSDT'' ''buy'' (Finite 1) w0) \<and>
   fst (place_market_order (mock_bot mock_client) ''FAKEUSDT'' ''buy'' (Finite 1) w0) = None \<and>
   (\<exists>cs. calls (snd (place_market_order (mock_bot mock_client) ''FAKEUSDT'' ''buy'' (Finite 1) w0))
           = calls w0 @ cs \<and> submissions cs = []) \<and>
   \<not> fst (validate_limit_order_inputs (mock_bot mock_client) ''BTCUSDT'' ''buy''
            float_0_0005 (Finite 100) w0) \<and>
   fst (place_limit_order (mock_bot mock_client) ''BTCUSDT'' ''buy''
            float_0_0005 (Finite 100) w0) = None \<and>
   (\<exists>cs. calls (snd (place_limit_order (mock_bot mock_client) ''BTCUSDT'' ''buy''
            float_0_0005 (Finite 100) w0)) = calls w0 @ cs \<and> submissions cs = [])"
proof -
  have m: "\<not> fst (validate_market_order_inputs (mock_bot mock_client) ''FAKEUSDT'' ''buy''
             (Finite 1) w0)"
    by code_simp
  have l: "\<not> fst (validate_limit_order_inputs (mock_bot mock_client) ''BTCUSDT'' ''buy''
            float_0_0005 (Finite 100) w0)"
    by code_simp
  from m rejected_input_places_no_order
         [of "mock_bot mock_client" "''FAKEUSDT''" "''buy''" "Finite 1" w0]
  have 1: "fst (place_market_order (mock_bot mock_client) ''FAKEUSDT'' ''buy'' (Finite 1) w0) = None \<and>
   (\<exists>cs. calls (snd (place_market_order (mock_bot mock_client) ''FAKEUSDT'' ''buy'' (Finite 1) w0))
           = calls w0 @ cs \<and> submissions cs = [])"
    by blast
  from l rejected_input_places_no_order
         [of "mock_bot mock_client" "''BTCUSDT''" "''buy''" "float_0_0005" w0
             "Finite 100"]
  have 2: "fst (place_limit_order (mock_bot mock_client) ''BTCUSDT'' ''buy''
            float_0_0005 (Finite 100) w0) = None \<and>
   (\<exists>cs. calls (snd (place_limit_order (mock_bot mock_client) ''BTCUSDT'' ''buy''
            float_0_0005 (Finite 100) w0)) = calls w0 @ cs \<and> submissions cs = [])"
    by blast
  from m l 1 2 show ?thesis by blast
qed

text \<open>
  Claim C10. In the result of a successful \<^verbatim>\<open>place_market_order\<close> or \<^verbatim>\<open>place_limit_order\<close>
  the symbol and the side are the caller's strings as given, and the quantity and the price
  are the caller's arguments; the one order submitted to the exchange by the call carries
  the upper-cased symbol and side.
\<close>

theorem result_echoes_caller_arguments:
  "(place_market_order self symbol side quantity w = (Some r, w') \<longrightarrow>
      r_symbol r = symbol \<and> r_side r = side \<and> r_quantity r = quantity \<and> r_price r = None \<and>
      (\<exists>cs. calls w' = calls w @ cs \<and>
         submissions cs = [\<lparr>p_symbol = upper symbol, p_side = upper side, p_type = ''MARKET'',
                            p_timeInForce = None, p_quantity = quantity, p_price = None\<rparr>])) \<and>
   (place_limit_order self symbol side quantity price w = (Some r, w') \<longrightarrow>
      r_symbol r = symbol \<and> r_side r = side \<and> r_quantity r = quantity \<and>
      r_price r = Some price \<and>
      (\<exists>cs. calls w' = calls w @ cs \<and>
         submissions cs = [\<lparr>p_symbol = upper symbol, p_side = upper side, p_type = ''LIMIT'',
                            p_timeInForce = Some ''GTC'', p_quantity = quantity,
                            p_price = Some price\<rparr>]))"
  using place_market_order_Some [of self symbol side quantity w r w']
        place_limit_order_Some [of self symbol side quantity price w r w']
  by blast

theorem result_echoes_caller_arguments_witness:
  "(\<exists>r w'. place_market_order (mock_bot mock_client) ''btcusdt'' ''Sell'' float_0_001 w0
             = (Some r, w') \<and>
      r_symbol r = ''btcusdt'' \<and> r_side r = ''Sell'' \<and> r_quantity r = float_0_001 \<and>
      r_price r = None \<and>
      (\<exists>cs. calls w' = calls w0 @ cs \<and>
         submissions cs = [\<lparr>p_symbol = ''BTCUSDT'', p_side = ''SELL'', p_type = ''MARKET'',
                            p_timeInForce = None, p_quantity = float_0_001,
                            p_price = None\<rparr>])) \<and>
   (\<exists>r w'. place_limit_order (mock_bot mock_client) ''btcusdt'' ''buy'' float_0_001
             (Finite 100) w0 = (Some r, w') \<and>
      r_symbol r = ''btcusdt'' \<and> r_side r = ''buy'' \<and> r_quantity r = float_0_001 \<and>
      r_price r = Some (Finite 100) \<and>
      (\<exists>cs. calls w' = calls w0 @ cs \<and>
         submissions cs = [\<lparr>p_symbol = ''BTCUSDT'', p_side = ''BUY'', p_type = ''LIMIT'',
                            p_timeInForce = Some ''GTC'', p_quantity = float_0_001,
                            p_price = Some (Finite 100)\<rparr>]))"
proof -
  have u: "upper ''btcusdt'' = ''BTCUSDT''" "upper ''Sell'' = ''SELL''" "upper ''buy'' = ''BUY''"
    by code_simp+
  have "fst (place_market_order (mock_bot mock_client) ''btcusdt'' ''Sell''
          float_0_001 w0) \<noteq> None"
    by code_simp
  then obtain r w' where m: "place_market_order (mock_bot mock_client) ''btcusdt'' ''Sell''
          float_0_001 w0 = (Some r, w')"
    by (cases "place_market_order (mock_bot mock_client) ''btcusdt'' ''Sell''
          float_0_001 w0") auto
  have "fst (place_limit_order (mock_bot mock_client) ''btcusdt'' ''buy''
          float_0_001 (Finite 100) w0) \<noteq> None"
    by code_simp
  then obtain r2 w2 where l: "place_limit_order (mock_bot mock_client) ''btcusdt'' ''buy''
          float_0_001 (Finite 100) w0 = (Some r2, w2)"
    by (cases "place_limit_order (mock_bot mock_client) ''btcusdt'' ''buy''
          float_0_001 (Finite 100) w0") auto
  from m result_echoes_caller_arguments
         [of "mock_bot mock_client" "''btcusdt''" "''Sell''" "float_0_001" w0 r w']
  have 1: "r_symbol r = ''btcusdt'' \<and> r_side r = ''Sell'' \<and> r_quantity r = float_0_001 \<and>
      r_price r = None \<and>
      (\<exists>cs. calls w' = calls w0 @ cs \<and>
         submissions cs = [\<lparr>p_symbol = ''BTCUSDT'', p_side = ''SELL'', p_type = ''MARKET'',
                            p_timeInForce = None, p_quantity = float_0_001,
                            p_price = None\<rparr>])"
    unfolding u by blast
  from l result_echoes_caller_arguments
         [of "mock_bot mock_client" "''btcusdt''" "''buy''" "float_0_001" w0 r2 w2
             "Finite 100"]
  have 2: "r_symbol r2 = ''btcusdt'' \<and> r_side r2 = ''buy'' \<and>
      r_quantity r2 = float_0_001 \<and> r_price r2 = Some (Finite 100) \<and>
      (\<exists>cs. calls w2 = calls w0 @ cs \<and>
         submissions cs = [\<lparr>p_symbol = ''BTCUSDT'', p_side = ''BUY'', p_type = ''LIMIT'',
                            p_timeInForce = Some ''GTC'', p_quantity = float_0_001,
                            p_price = Some (Finite 100)\<rparr>])"
    unfolding u by blast
  from m 1 l 2 show ?thesis by blast
qed

section \<open>Quantity check\<close>

text \<open>
  Claim C4. Take a symbol that passes the symbol check (it is listed with status
  \<^verbatim>\<open>TRADING\<close>), a valid side, and exchange metadata in which the first entry of the symbol has
  a first \<^verbatim>\<open>LOT_SIZE\<close> filter with minimum quantity \<open>min_qty\<close>. Then the quantity check of
  the market-order validation rejects every quantity \<open>q \<le> 0\<close>, whatever \<open>min_qty\<close> is, with
  the reason "must be positive"; it rejects every \<open>0 < q < min_qty\<close> with the different
  reason "below minimum"; and it accepts every \<open>q > 0\<close> with \<open>q \<ge> min_qty\<close>.
\<close>

theorem quantity_check:
  assumes "validate_symbol self symbol w = (True, w1)"
    and "upper side \<in> set [''BUY'', ''SELL'']"
    and "fst (futures_exchange_info (client self) (exchange w1)) = Inr info"
    and "symbols info = Some (pre @ s # post)"
    and "\<forall>x \<in> set pre. \<exists>n. sym_symbol x = Some n \<and> n \<noteq> upper symbol"
    and "sym_symbol s = Some (upper symbol)" and "sym_filters s = Some (fpre @ f # fpost)"
    and "\<forall>x \<in> set fpre. \<exists>ty. filterType x = Some ty \<and> ty \<noteq> ''LOT_SIZE''"
    and "filterType f = Some ''LOT_SIZE''" and "minQty f = Some (Inr min_qty)"
  shows "(fle quantity (Finite 0) \<longrightarrow>
            \<not> fst (validate_market_order_inputs self symbol side quantity w) \<and>
            last (log (snd (validate_market_order_inputs self symbol side quantity w)))
              = (ERROR, Invalid_quantity quantity)) \<and>
         (flt (Finite 0) quantity \<and> flt quantity min_qty \<longrightarrow>
            \<not> fst (validate_market_order_inputs self symbol side quantity w) \<and>
            last (log (snd (validate_market_order_inputs self symbol side quantity w)))
              = (WARNING, Quantity_below_minimum quantity min_qty symbol)) \<and>
         (flt (Finite 0) quantity \<and> fge quantity min_qty \<longrightarrow>
            fst (validate_market_order_inputs self symbol side quantity w))"
proof -
  note vq = validate_quantity_found [OF assms(3-10), of quantity]
  show ?thesis
  proof (intro conjI impI)
    assume "fle quantity (Finite 0)"
    with assms(1,2)
    show "\<not> fst (validate_market_order_inputs self symbol side quantity w)"
      and "last (log (snd (validate_market_order_inputs self symbol side quantity w)))
              = (ERROR, Invalid_quantity quantity)"
      by (simp_all add: validate_market_order_inputs_def)
  next
    assume h: "flt (Finite 0) quantity \<and> flt quantity min_qty"
    then have "\<not> fle quantity (Finite 0)" "\<not> fge quantity min_qty"
      by (simp_all add: flt_not_fle flt_not_fge)
    with assms(1,2) vq
    show "\<not> fst (validate_market_order_inputs self symbol side quantity w)"
      and "last (log (snd (validate_market_order_inputs self symbol side quantity w)))
              = (WARNING, Quantity_below_minimum quantity min_qty symbol)"
      by (simp_all add: validate_market_order_inputs_def Let_def)
  next
    assume h: "flt (Finite 0) quantity \<and> fge quantity min_qty"
    then have "\<not> fle quantity (Finite 0)" by (simp add: flt_not_fle)
    with assms(1,2) vq h
    show "fst (validate_market_order_inputs self symbol side quantity w)"
      by (simp add: validate_market_order_inputs_def Let_def)
  qed
qed

theorem quantity_check_witness:
  "fle (Finite 0) (Finite 0) \<and>
   \<not> fst (validate_market_order_inputs (mock_bot mock_client) ''BTCUSDT'' ''buy'' (Finite 0) w0) \<and>
   flt (Finite 0) float_0_0005 \<and> flt float_0_0005 float_0_001 \<and>
   \<not> fst (validate_market_order_inputs (mock_bot mock_client) ''BTCUSDT'' ''buy''
           float_0_0005 w0) \<and>
   last (log (snd (validate_market_order_inputs (mock_bot mock_client) ''BTCUSDT'' ''buy''
           float_0_0005 w0)))
     = (WARNING, Quantity_below_minimum float_0_0005 float_0_001 ''BTCUSDT'') \<and>
   fge float_0_001 float_0_001 \<and>
   fst (validate_market_order_inputs (mock_bot mock_client) ''BTCUSDT'' ''buy''
           float_0_001 w0)"
proof -
  let ?self = "mock_bot mock_client"
  let ?w1 = "logger_info (Symbol_is_valid ''BTCUSDT'')
               (w0\<lparr>exchange := 0, calls := [Futures_exchange_info]\<rparr>)"
  have v: "validate_symbol ?self ''BTCUSDT'' w0 = (True, ?w1)"
    using btc_symbol_valid [of ?self w0 "''BTCUSDT''"] by (simp add: upper_examples)
  have side: "upper ''buy'' \<in> set [''BUY'', ''SELL'']" by (simp add: upper_examples)
  have i: "fst (futures_exchange_info (client ?self) (exchange ?w1)) = Inr btc_info" by simp
  have ss: "symbols btc_info = Some ([] @ btc_symbol # [])"
    by (simp add: btc_info_def)
  have fs: "sym_filters btc_symbol = Some ([btc_price_filter] @ btc_lot_filter # [])"
    by (simp add: btc_symbol_def)
  note q = quantity_check [OF v side i ss _ _ fs, of "float_0_001"]
  have 0: "(fle q (Finite 0) \<longrightarrow>
            \<not> fst (validate_market_order_inputs ?self ''BTCUSDT'' ''buy'' q w0) \<and>
            last (log (snd (validate_market_order_inputs ?self ''BTCUSDT'' ''buy'' q w0)))
              = (ERROR, Invalid_quantity q)) \<and>
         (flt (Finite 0) q \<and> flt q float_0_001 \<longrightarrow>
            \<not> fst (validate_market_order_inputs ?self ''BTCUSDT'' ''buy'' q w0) \<and>
            last (log (snd (validate_market_order_inputs ?self ''BTCUSDT'' ''buy'' q w0)))
              = (WARNING, Quantity_below_minimum q float_0_001 ''BTCUSDT'')) \<and>
         (flt (Finite 0) q \<and> fge q float_0_001 \<longrightarrow>
            fst (validate_market_order_inputs ?self ''BTCUSDT'' ''buy'' q w0))" for q
    by (rule q)
       (simp_all add: btc_symbol_def btc_price_filter_def btc_lot_filter_def upper_examples)
  from 0 [of "Finite 0"] 0 [of "float_0_0005"] 0 [of "float_0_001"]
  show ?thesis
    using quantity_examples by simp
qed

section \<open>The limit-order scenarios\<close>

text \<open>
  Claim C5. Against an exchange that publishes \<^verbatim>\<open>BTCUSDT\<close> with status \<^verbatim>\<open>TRADING\<close>, minimum
  quantity \<^verbatim>\<open>0.001\<close> and tick size \<^verbatim>\<open>0.01\<close>, and that accepts every submission:
  \<^verbatim>\<open>place_limit_order("BTCUSDT", "buy", 0.001, 100.00)\<close> returns a result whose quantity is
  \<^verbatim>\<open>0.001\<close> and whose price is \<^verbatim>\<open>100.00\<close>; with quantity \<^verbatim>\<open>0.0005\<close> it returns \<^verbatim>\<open>None\<close>; and
  with price \<^verbatim>\<open>100.005\<close> it returns \<^verbatim>\<open>None\<close>. The arithmetic is binary64.
\<close>

theorem limit_order_scenarios:
  assumes "\<forall>g. fst (futures_exchange_info (client self) g) = Inr btc_info"
    and "\<forall>ps g. \<exists>order order_id g'.
           futures_create_order (client self) ps g = (Inr order, g') \<and>
           orderId order = Some order_id"
  shows "(\<exists>r. fst (place_limit_order self ''BTCUSDT'' ''buy'' float_0_001 (Finite 100) w) = Some r \<and>
              r_quantity r = float_0_001 \<and> r_price r = Some (Finite 100)) \<and>
         fst (place_limit_order self ''BTCUSDT'' ''buy'' float_0_0005 (Finite 100) w) = None \<and>
         fst (place_limit_order self ''BTCUSDT'' ''buy'' float_0_001 float_100_005 w) = None"
proof (intro conjI)
  have side: "upper ''buy'' \<in> set [''BUY'', ''SELL'']" by (simp add: upper_examples)
  have p100: "\<not> fle (Finite 100) (Finite 0)" by simp
  have poff: "\<not> fle float_100_005 (Finite 0)" by (simp add: float_literals)
  have "fst (validate_limit_order_inputs self ''BTCUSDT'' ''buy'' float_0_001 (Finite 100) w)"
    using btc_limit_inputs [OF assms(1) upper_examples(1) side quantity_examples(2) p100, of w]
    by (simp add: quantity_examples tick_100 tick_100_accept)
  then show "\<exists>r. fst (place_limit_order self ''BTCUSDT'' ''buy'' float_0_001 (Finite 100) w) = Some r \<and>
              r_quantity r = float_0_001 \<and> r_price r = Some (Finite 100)"
    using assms(2) by (rule place_limit_order_accepted)
  have "\<not> fst (validate_limit_order_inputs self ''BTCUSDT'' ''buy'' float_0_0005 (Finite 100) w)"
    using btc_limit_inputs [OF assms(1) upper_examples(1) side quantity_examples(5) p100, of w]
    by (simp add: quantity_examples)
  then show "fst (place_limit_order self ''BTCUSDT'' ''buy'' float_0_0005 (Finite 100) w) = None"
    by (rule place_limit_order_rejected)
  have "\<not> fst (validate_limit_order_inputs self ''BTCUSDT'' ''buy'' float_0_001 float_100_005 w)"
    using btc_limit_inputs [OF assms(1) upper_examples(1) side quantity_examples(2) poff, of w]
    by (simp add: quantity_examples tick_off tick_off_reject)
  then show "fst (place_limit_order self ''BTCUSDT'' ''buy'' float_0_001 float_100_005 w) = None"
    by (rule place_limit_order_rejected)
qed

theorem limit_order_scenarios_witness:
  "(\<exists>r. fst (place_limit_order (mock_bot mock_client) ''BTCUSDT'' ''buy'' float_0_001
               (Finite 100) w0) = Some r \<and>
        r_quantity r = float_0_001 \<and> r_price r = Some (Finite 100)) \<and>
   fst (place_limit_order (mock_bot mock_client) ''BTCUSDT'' ''buy'' float_0_0005
          (Finite 100) w0) = None \<and>
   fst (place_limit_order (mock_bot mock_client) ''BTCUSDT'' ''buy'' float_0_001
          float_100_005 w0) = None"
proof -
  have i: "\<forall>g. fst (futures_exchange_info (client (mock_bot mock_client)) g) = Inr btc_info"
    by simp
  have c: "\<forall>ps g. \<exists>order order_id g'.
           futures_create_order (client (mock_bot mock_client)) ps g = (Inr order, g') \<and>
           orderId order = Some order_id"
    by (simp add: mock_client_def)
  from limit_order_scenarios [OF i c, of w0] show ?thesis .
qed

section \<open>Tick alignment of prices\<close>

subsection \<open>The price \<^verbatim>\<open>8192.13\<close> against the tick size \<^verbatim>\<open>0.01\<close>\<close>

text \<open>
  The binary64 values of the computation \<^verbatim>\<open>round(8192.13 / 0.01) * 0.01\<close>: the quotient is
  just below \<open>819213\<close>, it is rounded to \<open>819213\<close>, and the product is the float next
  above \<^verbatim>\<open>8192.13\<close>.
\<close>

lemma b64_float_8192_13: "binary64 (819213 / 100) = Finite (4503671095626301 / 549755813888)"
proof -
  have "binary64 (819213 / 100) = Finite (of_int 4503671095626301 * pow2 (13 - 52))"
    by (rule binary64_normal; simp add: pow2_def max_float_def)
       (rule round_half_even_near, simp)
  then show ?thesis by (simp add: pow2_def)
qed

lemma float_8192_13_val: "float_8192_13 = Finite (4503671095626301 / 549755813888)"
  unfolding float_8192_13_def by (rule b64_float_8192_13)

lemma b64_div_kilo: "binary64 (4503671095626301 / 549755813888 / (5764607523034235 / 576460752303423488)) = Finite (7036986086916095 / 8589934592)"
proof -
  have "binary64 (4503671095626301 / 549755813888 / (5764607523034235 / 576460752303423488)) = Finite (of_int 7036986086916095 * pow2 (19 - 52))"
    by (rule binary64_normal; simp add: pow2_def max_float_def)
       (rule round_half_even_near, simp)
  then show ?thesis by (simp add: pow2_def)
qed

lemma b64_int_kilo: "binary64 (of_int 819213) = Finite (819213)"
proof -
  have "binary64 (of_int 819213) = Finite (of_int 7036986086916096 * pow2 (19 - 52))"
    by (rule binary64_normal; simp add: pow2_def max_float_def)
  then show ?thesis by (simp add: pow2_def)
qed
lemma b64_mul_kilo: "binary64 (819213 * (5764607523034235 / 576460752303423488)) = Finite (2251835547813151 / 274877906944)"
proof -
  have "binary64 (819213 * (5764607523034235 / 576460752303423488)) = Finite (of_int 4503671095626302 * pow2 (13 - 52))"
    by (rule binary64_normal; simp add: pow2_def max_float_def)
       (rule round_half_even_near, simp)
  then show ?thesis by (simp add: pow2_def)
qed

lemma b64_sub_kilo: "binary64 (4503671095626301 / 549755813888 - 2251835547813151 / 274877906944) = Finite ((- 1 / 549755813888))"
proof -
  have "binary64 (4503671095626301 / 549755813888 - 2251835547813151 / 274877906944) = Finite (of_int (- 4503599627370496) * pow2 ((- 39) - 52))"
    by (rule binary64_normal; simp add: pow2_def max_float_def)
       (rule round_half_even_near, simp)
  then show ?thesis by (simp add: pow2_def)
qed

lemma tick_kilo:
  "rounded_to_tick float_8192_13 float_0_01 = Inr (Finite (2251835547813151 / 274877906944))"
  unfolding float_0_01_val float_8192_13_val
  by (rule rounded_to_tick_eval [OF _ b64_div_kilo _ b64_int_kilo b64_mul_kilo],
      simp, rule round_half_even_near, simp)

lemma tick_kilo_reject:
  "\<not> fle (fabs (fsub float_8192_13 (Finite (2251835547813151 / 274877906944))))
         (fmul float_0_01 float_1e_10)"
  unfolding float_0_01_val float_8192_13_val
  by (subst tolerance_eval [OF float_1e_10_val b64_tol b64_sub_kilo]) simp

lemma round_kilo:
  "round_half_even (4722441422767444197376 / 5764607523034235) = 819213"
  by (rule round_half_even_near) simp

lemma kilo_exactly_aligned: "exactly_aligned float_8192_13 float_0_01"
  unfolding float_0_01_val float_8192_13_val
  by (simp add: exactly_aligned_def tick_distance_def round_kilo)

lemma b64_float_next: "binary64 (8192130000000001 / 10 ^ 12) = Finite (2251835547813151 / 274877906944)"
proof -
  have "binary64 (8192130000000001 / 10 ^ 12) = Finite (of_int 4503671095626302 * pow2 (13 - 52))"
    by (rule binary64_normal; simp add: pow2_def max_float_def)
       (rule round_half_even_near, simp)
  then show ?thesis by (simp add: pow2_def)
qed

lemma float_next_val:
  "float_8192_130000000001 = Finite (2251835547813151 / 274877906944)"
  unfolding float_8192_130000000001_def by (rule b64_float_next)

lemma btc_price_result:
  assumes "fst (futures_exchange_info (client self) (exchange w)) = Inr btc_info"
    and "upper symbol = ''BTCUSDT''"
    and "rounded_to_tick price float_0_01 = Inr r"
    and "\<not> fle (fabs (fsub price r)) (fmul float_0_01 float_1e_10)"
  shows "validate_price_precision self symbol price w =
           (False, logger_error (Price_off_tick price float_0_01 symbol r)
                     (w\<lparr>exchange := snd (futures_exchange_info (client self) (exchange w)),
                        calls := calls w @ [Futures_exchange_info]\<rparr>))"
proof -
  have g: "get_symbol_info self symbol w =
           (Some btc_symbol, w\<lparr>exchange := snd (futures_exchange_info (client self) (exchange w)),
                      calls := calls w @ [Futures_exchange_info]\<rparr>)"
    by (rule get_symbol_info_found [OF assms(1), of "[]" btc_symbol "[]" symbol])
       (simp_all add: btc_info_def btc_symbol_def assms(2))
  have l: "price_filter_loop symbol price [btc_price_filter, btc_lot_filter] w' =
           (Inr (Some False), logger_error (Price_off_tick price float_0_01 symbol r) w')" for w'
    using price_filter_loop_found [of "[]" btc_price_filter float_0_01 symbol price "[btc_lot_filter]" w']
      assms(3,4)
    by (simp add: btc_price_filter_def)
  show ?thesis
    by (simp add: validate_price_precision_def g l btc_symbol_def del: price_filter_loop.simps)
qed

text \<open>
  Claim C1. For a symbol with a price filter of tick size \<open>t > 0\<close> and a price \<open>p > 0\<close>,
  the check computes \<^verbatim>\<open>round(p / t) * t\<close> and accepts \<open>p\<close> when it is within \<open>t\<close> times
  \<^verbatim>\<open>1e-10\<close> of that value; so every price that is an exact multiple of the tick size should
  be accepted. The code computes in binary64, and at the price \<^verbatim>\<open>8192.13\<close> with the tick size
  \<^verbatim>\<open>0.01\<close> it does not accept. The decimal \<open>8192.13\<close> is \<open>819213\<close> times the decimal
  \<open>0.01\<close>; and the value of the float \<^verbatim>\<open>8192.13\<close> is within the tolerance of the nearest
  multiple of the value of the float \<^verbatim>\<open>0.01\<close> in exact arithmetic as well. But the float
  product \<^verbatim>\<open>819213 * 0.01\<close> is the float next above \<^verbatim>\<open>8192.13\<close>, at a distance of \<open>2\<close> to
  the power \<open>-39\<close>, which is more than \<^verbatim>\<open>0.01 * 1e-10\<close>: the check rejects the price,
  logging \<^verbatim>\<open>8192.130000000001\<close> as the nearest valid price, and the limit order at this price
  is refused.
\<close>

theorem aligned_price_rejected:
  "tick_distance (819213 / 100) (1 / 100) = 0 \<and>
   exactly_aligned float_8192_13 float_0_01 \<and>
   \<not> fst (validate_price_precision (mock_bot mock_client) ''BTCUSDT'' float_8192_13 w0) \<and>
   last (log (snd (validate_price_precision (mock_bot mock_client) ''BTCUSDT'' float_8192_13 w0)))
     = (ERROR, Price_off_tick float_8192_13 float_0_01 ''BTCUSDT'' float_8192_130000000001) \<and>
   fst (place_limit_order (mock_bot mock_client) ''BTCUSDT'' ''buy'' float_0_001
          float_8192_13 w0) = None"
proof (intro conjI)
  let ?self = "mock_bot mock_client"
  show "tick_distance (819213 / 100) (1 / 100) = 0" by (simp add: tick_distance_def)
  show "exactly_aligned float_8192_13 float_0_01" by (rule kilo_exactly_aligned)
  have i: "\<forall>g. fst (futures_exchange_info (client ?self) g) = Inr btc_info" by simp
  have side: "upper ''buy'' \<in> set [''BUY'', ''SELL'']" by (simp add: upper_examples)
  have pos: "\<not> fle float_8192_13 (Finite 0)" by (simp add: float_8192_13_val)
  show "\<not> fst (validate_price_precision ?self ''BTCUSDT'' float_8192_13 w0)"
    using btc_price [of ?self w0 "''BTCUSDT''" float_8192_13]
    by (simp add: upper_examples tick_kilo tick_kilo_reject)
  show "last (log (snd (validate_price_precision ?self ''BTCUSDT'' float_8192_13 w0)))
     = (ERROR, Price_off_tick float_8192_13 float_0_01 ''BTCUSDT'' float_8192_130000000001)"
    by (subst btc_price_result [where r = "Finite (2251835547813151 / 274877906944)"])
       (simp_all add: upper_examples tick_kilo tick_kilo_reject logger_error_def float_next_val)
  have "\<not> fst (validate_limit_order_inputs ?self ''BTCUSDT'' ''buy'' float_0_001 float_8192_13 w0)"
    using btc_limit_inputs [OF i upper_examples(1) side quantity_examples(2) pos, of w0]
    by (simp add: quantity_examples tick_kilo tick_kilo_reject)
  then show "fst (place_limit_order ?self ''BTCUSDT'' ''buy'' float_0_001 float_8192_13 w0) = None"
    by (rule place_limit_order_rejected)
qed

section \<open>Errors of the exchange during order placement\<close>

text \<open>
  Claim C3, as stated: whenever the exchange raises during the submission or during the
  status query that follows it, the manager returns \<^verbatim>\<open>None\<close>. This fails for the status query:
  \<^verbatim>\<open>_get_order_status\<close> catches the error itself and yields the status \<^verbatim>\<open>None\<close>, and the manager
  goes on to return the result. Here the exchange accepts a market order and then fails the
  status query; the error is logged and the result is not \<^verbatim>\<open>None\<close>.
\<close>

theorem status_fetch_error_still_returns_result:
  "fst (place_market_order (mock_bot no_status_client) ''BTCUSDT'' ''buy'' float_0_001 w0) \<noteq> None \<and>
   last (log (snd (place_market_order (mock_bot no_status_client) ''BTCUSDT'' ''buy''
                     float_0_001 w0)))
     = (ERROR, Failed_order_status (ApiError ''timeout''))"
proof -
  let ?self = "mock_bot no_status_client"
  have "fst (validate_market_order_inputs ?self ''BTCUSDT'' ''buy'' float_0_001 w0)"
    by (subst btc_market_inputs) (simp_all add: upper_examples quantity_examples)
  then obtain w1 where
    v: "validate_market_order_inputs ?self ''BTCUSDT'' ''buy'' float_0_001 w0 = (True, w1)"
    by (cases "validate_market_order_inputs ?self ''BTCUSDT'' ''buy'' float_0_001 w0") auto
  from market_status_error [OF v, of "\<lparr>orderId = Some (int (exchange w1)), other_fields = []\<rparr>"
         "Suc (exchange w1)" "int (exchange w1)" "ApiError ''timeout''"]
  show ?thesis by simp
qed

text \<open>
  Claim C3, amended. For \<^verbatim>\<open>place_market_order\<close> and \<^verbatim>\<open>place_limit_order\<close> on an input that
  passes validation: when the exchange raises during the submission, the manager catches
  the error, logs it and returns \<^verbatim>\<open>None\<close>; when the submission succeeds and the exchange
  raises during the status query, the error is caught and logged and the manager returns
  the result record of the order, with the status \<^verbatim>\<open>None\<close>.
\<close>

theorem gateway_errors_are_caught:
  "(validate_market_order_inputs self symbol side quantity w = (True, w1) \<longrightarrow>
      (fst (futures_create_order (client self) (market_order_params symbol side quantity)
              (exchange w1)) = Inl e \<longrightarrow>
         fst (place_market_order self symbol side quantity w) = None \<and>
         last (log (snd (place_market_order self symbol side quantity w)))
           = (ERROR, Failed_market_order e)) \<and>
      (futures_create_order (client self) (market_order_params symbol side quantity)
           (exchange w1) = (Inr order, g) \<and>
       orderId order = Some order_id \<and>
       fst (futures_get_order (client self) (upper symbol) order_id g) = Inl e \<longrightarrow>
         fst (place_market_order self symbol side quantity w) =
           Some \<lparr>r_order_id = order_id, r_symbol = symbol, r_side = side, r_quantity = quantity,
                 r_price = None, r_type = ''MARKET'', r_status = None,
                 r_raw_response = order\<rparr> \<and>
         last (log (snd (place_market_order self symbol side quantity w)))
           = (ERROR, Failed_order_status e))) \<and>
   (validate_limit_order_inputs self symbol side quantity price w = (True, w2) \<longrightarrow>
      (fst (futures_create_order (client self) (limit_order_params symbol side quantity price)
              (exchange w2)) = Inl e \<longrightarrow>
         fst (place_limit_order self symbol side quantity price w) = None \<and>
         last (log (snd (place_limit_order self symbol side quantity price w)))
           = (ERROR, Failed_limit_order e)) \<and>
      (futures_create_order (client self) (limit_order_params symbol side quantity price)
           (exchange w2) = (Inr order, g) \<and>
       orderId order = Some order_id \<and>
       fst (futures_get_order (client self) (upper symbol) order_id g) = Inl e \<longrightarrow>
         fst (place_limit_order self symbol side quantity price w) =
           Some \<lparr>r_order_id = order_id, r_symbol = symbol, r_side = side, r_quantity = quantity,
                 r_price = Some price, r_type = ''LIMIT'', r_status = None,
                 r_raw_response = order\<rparr> \<and>
         last (log (snd (place_limit_order self symbol side quantity price w)))
           = (ERROR, Failed_order_status e)))"
  using market_submission_error [of self symbol side quantity w w1 e]
        market_status_error [of self symbol side quantity w w1 order g order_id e]
        limit_submission_error [of self symbol side quantity price w w2 e]
        limit_status_error [of self symbol side quantity price w w2 order g order_id e]
  by blast


theorem gateway_errors_are_caught_witness:
  "fst (place_market_order (mock_bot reject_client) ''BTCUSDT'' ''sell'' float_0_001 w0) = None \<and>
   last (log (snd (place_market_order (mock_bot reject_client) ''BTCUSDT'' ''sell'' float_0_001 w0)))
     = (ERROR, Failed_market_order (ApiError ''rejected'')) \<and>
   fst (place_limit_order (mock_bot reject_client) ''BTCUSDT'' ''sell'' float_0_001 (Finite 100) w0)
     = None \<and>
   last (log (snd (place_limit_order (mock_bot reject_client) ''BTCUSDT'' ''sell'' float_0_001
                     (Finite 100) w0)))
     = (ERROR, Failed_limit_order (ApiError ''rejected'')) \<and>
   (\<exists>r. fst (place_market_order (mock_bot no_status_client) ''BTCUSDT'' ''sell'' float_0_001 w0)
          = Some r \<and> r_status r = None) \<and>
   last (log (snd (place_market_order (mock_bot no_status_client) ''BTCUSDT'' ''sell''
                     float_0_001 w0)))
     = (ERROR, Failed_order_status (ApiError ''timeout'')) \<and>
   (\<exists>r. fst (place_limit_order (mock_bot no_status_client) ''BTCUSDT'' ''sell'' float_0_001
               (Finite 100) w0) = Some r \<and> r_status r = None) \<and>
   last (log (snd (place_limit_order (mock_bot no_status_client) ''BTCUSDT'' ''sell'' float_0_001
                     (Finite 100) w0)))
     = (ERROR, Failed_order_status (ApiError ''timeout''))"
proof -
  have side: "upper ''sell'' \<in> set [''BUY'', ''SELL'']" by (simp add: upper_examples)
  have mk: "fst (validate_market_order_inputs (mock_bot c) ''BTCUSDT'' ''sell'' float_0_001 w0)"
    if "\<forall>g. fst (futures_exchange_info (client (mock_bot c)) g) = Inr btc_info" for c
    using btc_market_inputs [OF that upper_examples(1) side quantity_examples(2), of w0]
    by (simp add: quantity_examples)
  have lm: "fst (validate_limit_order_inputs (mock_bot c) ''BTCUSDT'' ''sell'' float_0_001
                   (Finite 100) w0)"
    if "\<forall>g. fst (futures_exchange_info (client (mock_bot c)) g) = Inr btc_info" for c
    using btc_limit_inputs [OF that upper_examples(1) side quantity_examples(2), of "Finite 100" w0]
    by (simp add: quantity_examples tick_100 tick_100_accept)
  obtain m1 where m1: "validate_market_order_inputs (mock_bot reject_client) ''BTCUSDT'' ''sell''
                         float_0_001 w0 = (True, m1)"
    using mk [of reject_client]
    by (cases "validate_market_order_inputs (mock_bot reject_client) ''BTCUSDT'' ''sell''
                 float_0_001 w0") auto
  obtain l1 where l1: "validate_limit_order_inputs (mock_bot reject_client) ''BTCUSDT'' ''sell''
                         float_0_001 (Finite 100) w0 = (True, l1)"
    using lm [of reject_client]
    by (cases "validate_limit_order_inputs (mock_bot reject_client) ''BTCUSDT'' ''sell''
                 float_0_001 (Finite 100) w0") auto
  obtain m2 where m2: "validate_market_order_inputs (mock_bot no_status_client) ''BTCUSDT''
                         ''sell'' float_0_001 w0 = (True, m2)"
    using mk [of no_status_client]
    by (cases "validate_market_order_inputs (mock_bot no_status_client) ''BTCUSDT'' ''sell''
                 float_0_001 w0") auto
  obtain l2 where l2: "validate_limit_order_inputs (mock_bot no_status_client) ''BTCUSDT''
                         ''sell'' float_0_001 (Finite 100) w0 = (True, l2)"
    using lm [of no_status_client]
    by (cases "validate_limit_order_inputs (mock_bot no_status_client) ''BTCUSDT'' ''sell''
                 float_0_001 (Finite 100) w0") auto
  from m1 l1
    gateway_errors_are_caught
      [where self = "mock_bot reject_client" and symbol = "''BTCUSDT''" and side = "''sell''"
         and quantity = float_0_001 and price = "Finite 100" and w = w0 and ?w1.0 = m1
         and ?w2.0 = l1 and e = "ApiError ''rejected''"]
  have A: "fst (place_market_order (mock_bot reject_client) ''BTCUSDT'' ''sell'' float_0_001 w0) = None \<and>
   last (log (snd (place_market_order (mock_bot reject_client) ''BTCUSDT'' ''sell'' float_0_001 w0)))
     = (ERROR, Failed_market_order (ApiError ''rejected'')) \<and>
   fst (place_limit_order (mock_bot reject_client) ''BTCUSDT'' ''sell'' float_0_001 (Finite 100) w0)
     = None \<and>
   last (log (snd (place_limit_order (mock_bot reject_client) ''BTCUSDT'' ''sell'' float_0_001
                     (Finite 100) w0)))
     = (ERROR, Failed_limit_order (ApiError ''rejected''))"
    by simp
  from m2
    gateway_errors_are_caught
      [where self = "mock_bot no_status_client" and symbol = "''BTCUSDT''" and side = "''sell''"
         and quantity = float_0_001 and price = "Finite 100" and w = w0 and ?w1.0 = m2
         and ?w2.0 = l2 and e = "ApiError ''timeout''"
         and order = "\<lparr>orderId = Some (int (exchange m2)), other_fields = []\<rparr>"
         and g = "Suc (exchange m2)" and order_id = "int (exchange m2)"]
  have B: "(\<exists>r. fst (place_market_order (mock_bot no_status_client) ''BTCUSDT'' ''sell'' float_0_001 w0)
          = Some r \<and> r_status r = None) \<and>
   last (log (snd (place_market_order (mock_bot no_status_client) ''BTCUSDT'' ''sell''
                     float_0_001 w0)))
     = (ERROR, Failed_order_status (ApiError ''timeout''))"
    by simp
  from l2
    gateway_errors_are_caught
      [where self = "mock_bot no_status_client" and symbol = "''BTCUSDT''" and side = "''sell''"
         and quantity = float_0_001 and price = "Finite 100" and w = w0 and ?w1.0 = m2
         and ?w2.0 = l2 and e = "ApiError ''timeout''"
         and order = "\<lparr>orderId = Some (int (exchange l2)), other_fields = []\<rparr>"
         and g = "Suc (exchange l2)" and order_id = "int (exchange l2)"]
  have C: "(\<exists>r. fst (place_limit_order (mock_bot no_status_client) ''BTCUSDT'' ''sell'' float_0_001
               (Finite 100) w0) = Some r \<and> r_status r = None) \<and>
   last (log (snd (place_limit_order (mock_bot no_status_client) ''BTCUSDT'' ''sell'' float_0_001
                     (Finite 100) w0)))
     = (ERROR, Failed_order_status (ApiError ''timeout''))"
    by simp
  from A B C show ?thesis by blast
qed

section \<open>Missing filters\<close>

text \<open>
  Claim C9. When the metadata fetched for a symbol has filters none of which is of type
  \<^verbatim>\<open>PRICE_FILTER\<close>, the price-precision check accepts every price: no tick alignment is
  required. The quantity check, in contrast, rejects every quantity when no entry of the
  exchange metadata for the symbol has a filter of type \<^verbatim>\<open>LOT_SIZE\<close>, which includes the case
  that the metadata has no entry for the symbol at all.
\<close>

theorem missing_filters:
  "(fst (get_symbol_info self symbol w) = Some s \<and> sym_filters s = Some fs \<and>
    (\<forall>f \<in> set fs. \<exists>ty. filterType f = Some ty \<and> ty \<noteq> ''PRICE_FILTER'') \<longrightarrow>
      fst (validate_price_precision self symbol price w)) \<and>
   ((\<forall>info ss s fs f.
        fst (futures_exchange_info (client self) (exchange w)) = Inr info \<and>
        symbols info = Some ss \<and> s \<in> set ss \<and> sym_symbol s = Some (upper symbol) \<and>
        sym_filters s = Some fs \<and> f \<in> set fs \<longrightarrow> filterType f \<noteq> Some ''LOT_SIZE'') \<longrightarrow>
      \<not> fst (validate_quantity self symbol quantity w))"
proof (intro conjI impI)
  assume h: "fst (get_symbol_info self symbol w) = Some s \<and> sym_filters s = Some fs \<and>
    (\<forall>f \<in> set fs. \<exists>ty. filterType f = Some ty \<and> ty \<noteq> ''PRICE_FILTER'')"
  then obtain w1 where g: "get_symbol_info self symbol w = (Some s, w1)"
    by (cases "get_symbol_info self symbol w") auto
  from h have "price_filter_loop symbol price fs w1 = (Inr None, w1)"
    by (intro price_filter_loop_none) simp
  with h g show "fst (validate_price_precision self symbol price w)"
    by (simp add: validate_price_precision_def)
next
  assume h: "\<forall>info ss s fs f.
        fst (futures_exchange_info (client self) (exchange w)) = Inr info \<and>
        symbols info = Some ss \<and> s \<in> set ss \<and> sym_symbol s = Some (upper symbol) \<and>
        sym_filters s = Some fs \<and> f \<in> set fs \<longrightarrow> filterType f \<noteq> Some ''LOT_SIZE''"
  show "\<not> fst (validate_quantity self symbol quantity w)"
  proof (cases "fst (futures_exchange_info (client self) (exchange w))")
    case (Inl e)
    then show ?thesis by (simp add: validate_quantity_def invoke_eq)
  next
    case (Inr info)
    show ?thesis
    proof (cases "symbols info")
      case None
      with Inr show ?thesis by (simp add: validate_quantity_def invoke_eq)
    next
      case (Some ss)
      with Inr h have "\<forall>s \<in> set ss. \<forall>fs. sym_symbol s = Some (upper symbol) \<and>
             sym_filters s = Some fs \<longrightarrow> (\<forall>f \<in> set fs. filterType f \<noteq> Some ''LOT_SIZE'')"
        by blast
      from quantity_symbol_loop_no_lot [OF this, of quantity
             "w\<lparr>exchange := snd (futures_exchange_info (client self) (exchange w)),
                calls := calls w @ [Futures_exchange_info]\<rparr>"] Inr Some
      show ?thesis
        by (auto simp: validate_quantity_def invoke_eq)
    qed
  qed
qed

theorem missing_filters_witness:
  "fst (get_symbol_info (mock_bot bare_client) ''ETHUSDT'' w0) = Some eth_symbol \<and>
   sym_filters eth_symbol = Some [eth_filter] \<and>
   filterType eth_filter = Some ''MARKET_LOT_SIZE'' \<and>
   fst (validate_price_precision (mock_bot bare_client) ''ETHUSDT'' (Finite (12345 / 1000)) w0) \<and>
   \<not> fst (validate_quantity (mock_bot bare_client) ''ETHUSDT'' (Finite 5) w0)"
proof -
  let ?self = "mock_bot bare_client"
  have g: "fst (get_symbol_info ?self ''ETHUSDT'' w0) = Some eth_symbol"
    using get_symbol_info_found [of ?self w0 eth_info "[]" eth_symbol "[]" "''ETHUSDT''"]
    by (simp add: eth_info_def eth_symbol_def upper_examples)
  have fs: "sym_filters eth_symbol = Some [eth_filter]" by (simp add: eth_symbol_def)
  have ty: "filterType eth_filter = Some ''MARKET_LOT_SIZE''" by (simp add: eth_filter_def)
  have np: "\<forall>f \<in> set [eth_filter]. \<exists>ty. filterType f = Some ty \<and> ty \<noteq> ''PRICE_FILTER''"
    by (simp add: ty)
  have nl: "\<forall>info ss s fs f.
        fst (futures_exchange_info (client ?self) (exchange w0)) = Inr info \<and>
        symbols info = Some ss \<and> s \<in> set ss \<and> sym_symbol s = Some (upper ''ETHUSDT'') \<and>
        sym_filters s = Some fs \<and> f \<in> set fs \<longrightarrow> filterType f \<noteq> Some ''LOT_SIZE''"
    by (auto simp: eth_info_def eth_symbol_def eth_filter_def)
  from missing_filters [of ?self "''ETHUSDT''" w0 eth_symbol "[eth_filter]" "Finite (12345 / 1000)"
         "Finite 5"] g fs np nl
  have "fst (validate_price_precision ?self ''ETHUSDT'' (Finite (12345 / 1000)) w0) \<and>
        \<not> fst (validate_quantity ?self ''ETHUSDT'' (Finite 5) w0)"
    by blast
  with g fs ty show ?thesis by blast
qed

end
